theory Spec2Isabelle
  imports Complex_Main
begin

section \<open>The physics core of \<^verbatim>\<open>src/main.cpp\<close>\<close>

text \<open>
  The program keeps a global vector \<^verbatim>\<open>objs\<close> of \<^verbatim>\<open>Object\<close>s and, once per frame,
  runs one pass over it (lines 125-191): for every object the gravity loop, then
  \<^verbatim>\<open>updatePosition\<close>, the draw call, the screen-boundary test and the collision loop.

  All numbers of the program are C++ \<^verbatim>\<open>float\<close>s. The embedding does not fix their
  arithmetic: every definition is polymorphic in the number type \<open>'a\<close> and asks of it
  only that the symbols \<open>+\<close>, \<open>-\<close>, \<open>*\<close>, \<open>/\<close>, unary minus, \<open><\<close> and \<open>1\<close> exist
  (the classes named in the sort below are purely syntactic, they carry no law), and
  \<^verbatim>\<open>std::sqrt\<close> is a parameter. A theorem stated at this type therefore holds for every
  interpretation of the operators, rounding ones included. Two interpretations are used
  for concrete inputs: the exact arithmetic of \<^typ>\<open>real\<close>, and IEEE binary32, defined
  below. A theorem that needs a law of arithmetic is stated at \<^typ>\<open>real\<close> or at binary32
  and says so.
\<close>

subsection \<open>Data\<close>

text \<open>
  \<^verbatim>\<open>class Object\<close> (lines 18-34). \<^verbatim>\<open>position\<close> and \<^verbatim>\<open>velocity\<close> are
  \<^verbatim>\<open>std::vector<float>\<close>, read and written at the indices 0 and 1 only.
\<close>

record 'a Object =
  position :: "'a list"
  velocity :: "'a list"
  radius :: 'a
  mass :: 'a
  realRadius :: 'a

text \<open>
  The constants of a run: the globals \<^verbatim>\<open>SPACE_SCALE\<close> and \<^verbatim>\<open>TIME_SCALE\<close> (lines 13-14),
  the local \<^verbatim>\<open>G\<close> of \<^verbatim>\<open>main\<close> (line 106), and the library function \<^verbatim>\<open>std::sqrt\<close>.
\<close>

record 'a config =
  G :: 'a
  SPACE_SCALE :: 'a
  TIME_SCALE :: 'a
  sqrtf :: "'a \<Rightarrow> 'a"

text \<open>Both vectors of an object have the two components every constructor call gives them.\<close>

definition wf_Object :: "'a Object \<Rightarrow> bool" where
  "wf_Object obj = (length (position obj) = 2 \<and> length (velocity obj) = 2)"

subsection \<open>The methods of \<^verbatim>\<open>Object\<close>\<close>

text \<open>\<^verbatim>\<open>Object::accelerate\<close>, lines 36-40.\<close>

definition accelerate ::
  "'a::{plus,minus,times,uminus,inverse,ord,one} config \<Rightarrow> 'a \<Rightarrow> 'a \<Rightarrow> 'a Object \<Rightarrow> 'a Object"
where
  "accelerate c x y obj =
     (let v1 = (velocity obj)[0 := velocity obj ! 0 + x * TIME_SCALE c];
          v2 = v1[1 := v1 ! 1 + y * TIME_SCALE c]
      in obj\<lparr>velocity := v2\<rparr>)"

text \<open>\<^verbatim>\<open>Object::updatePosition\<close>, lines 42-47.\<close>

definition updatePosition ::
  "'a::{plus,minus,times,uminus,inverse,ord,one} config \<Rightarrow> 'a Object \<Rightarrow> 'a Object"
where
  "updatePosition c obj =
     (let p1 = (position obj)[0 := position obj ! 0 + velocity obj ! 0 * TIME_SCALE c * SPACE_SCALE c];
          p2 = p1[1 := p1 ! 1 + velocity obj ! 1 * TIME_SCALE c * SPACE_SCALE c]
      in obj\<lparr>position := p2\<rparr>)"

text \<open>
  The distance both the collision test (lines 50-52) and the gravity loop (lines 133-135)
  compute: from \<open>obj\<close> to \<open>obj2\<close>, in simulation space.
\<close>

definition distanceSim ::
  "'a::{plus,minus,times,uminus,inverse,ord,one} config \<Rightarrow> 'a Object \<Rightarrow> 'a Object \<Rightarrow> 'a"
where
  "distanceSim c obj obj2 =
     (let dx = position obj2 ! 0 - position obj ! 0;
          dy = position obj2 ! 1 - position obj ! 1
      in sqrtf c (dx * dx + dy * dy))"

text \<open>The four assignments of lines 57-60, on one object: each component times \<open>-1\<close>.\<close>

definition negateVelocity ::
  "'a::{plus,minus,times,uminus,inverse,ord,one} Object \<Rightarrow> 'a Object"
where
  "negateVelocity obj =
     (let v1 = (velocity obj)[0 := velocity obj ! 0 * (- 1)];
          v2 = v1[1 := v1 ! 1 * (- 1)]
      in obj\<lparr>velocity := v2\<rparr>)"

text \<open>
  \<^verbatim>\<open>Object::CheckCollision\<close>, lines 49-62. The method mutates \<^verbatim>\<open>*this\<close> and \<^verbatim>\<open>other\<close>;
  the model returns both. Its only caller passes two different elements of \<^verbatim>\<open>objs\<close>.
\<close>

definition CheckCollision ::
  "'a::{plus,minus,times,uminus,inverse,ord,one} config \<Rightarrow> 'a Object \<Rightarrow> 'a Object
     \<Rightarrow> 'a Object \<times> 'a Object"
where
  "CheckCollision c this other =
     (let distance = distanceSim c this other
      in if radius other + radius this > distance
         then (negateVelocity this, negateVelocity other)
         else (this, other))"

subsection \<open>One frame of \<^verbatim>\<open>main\<close>\<close>

text \<open>Line 138.\<close>

definition distanceReal ::
  "'a::{plus,minus,times,uminus,inverse,ord,one} config \<Rightarrow> 'a Object \<Rightarrow> 'a Object \<Rightarrow> 'a"
where
  "distanceReal c obj obj2 = distanceSim c obj obj2 / SPACE_SCALE c"

text \<open>Lines 146 and 149: the unit direction from \<open>obj\<close> to \<open>obj2\<close> and the force on \<open>obj\<close>.\<close>

definition direction ::
  "'a::{plus,minus,times,uminus,inverse,ord,one} config \<Rightarrow> 'a Object \<Rightarrow> 'a Object \<Rightarrow> 'a list"
where
  "direction c obj obj2 =
     (let dx = position obj2 ! 0 - position obj ! 0;
          dy = position obj2 ! 1 - position obj ! 1
      in [dx / distanceSim c obj obj2, dy / distanceSim c obj obj2])"

definition force ::
  "'a::{plus,minus,times,uminus,inverse,ord,one} config \<Rightarrow> 'a Object \<Rightarrow> 'a Object \<Rightarrow> 'a"
where
  "force c obj obj2 =
     (G c * mass obj * mass obj2) / (distanceReal c obj obj2 * distanceReal c obj obj2)"

text \<open>
  The body of the inner loop, lines 132-155, for one other object \<open>obj2\<close>: what it makes
  of \<open>obj\<close>.
\<close>

definition gravityStep ::
  "'a::{plus,minus,times,uminus,inverse,ord,one} config \<Rightarrow> 'a Object \<Rightarrow> 'a Object \<Rightarrow> 'a Object"
where
  "gravityStep c obj2 obj =
     (if distanceReal c obj obj2 < realRadius obj + realRadius obj2 then obj
      else
        (let acceleration = force c obj obj2 / mass obj
         in accelerate c (acceleration * direction c obj obj2 ! 0)
              (acceleration * direction c obj obj2 ! 1) obj))"

text \<open>
  The inner loop, lines 127-156, for the object at index \<open>i\<close>. \<^verbatim>\<open>&obj2 == &obj\<close> compares
  addresses of elements of the same vector, that is, indices.
\<close>

definition gravityLoop ::
  "'a::{plus,minus,times,uminus,inverse,ord,one} config \<Rightarrow> nat \<Rightarrow> 'a Object list \<Rightarrow> 'a Object list"
where
  "gravityLoop c i objs =
     fold (\<lambda>j os. if j = i then os else os[i := gravityStep c (os ! j) (os ! i)])
       [0..<length objs] objs"

text \<open>
  The screen boundaries, lines 166-183: first the axis 1, then the axis 0, on each the
  lower edge before the upper one.
\<close>

definition boundary ::
  "'a::{plus,minus,times,uminus,inverse,ord,one} Object \<Rightarrow> 'a Object"
where
  "boundary obj =
     (let o1 =
            (if position obj ! 1 - radius obj < - 1
             then obj\<lparr>position := (position obj)[1 := - 1 + radius obj],
                      velocity := (velocity obj)[1 := - (velocity obj ! 1)]\<rparr>
             else if position obj ! 1 + radius obj > 1
             then obj\<lparr>position := (position obj)[1 := 1 - radius obj],
                      velocity := (velocity obj)[1 := - (velocity obj ! 1)]\<rparr>
             else obj)
      in if position o1 ! 0 - radius o1 < - 1
         then o1\<lparr>position := (position o1)[0 := - 1 + radius o1],
                 velocity := (velocity o1)[0 := - (velocity o1 ! 0)]\<rparr>
         else if position o1 ! 0 + radius o1 > 1
         then o1\<lparr>position := (position o1)[0 := 1 - radius o1],
                 velocity := (velocity o1)[0 := - (velocity o1 ! 0)]\<rparr>
         else o1)"

text \<open>One call \<^verbatim>\<open>obj.CheckCollision(objs[j])\<close> of line 188, on the vector.\<close>

definition collidePair ::
  "'a::{plus,minus,times,uminus,inverse,ord,one} config \<Rightarrow> nat \<Rightarrow> nat \<Rightarrow> 'a Object list
     \<Rightarrow> 'a Object list"
where
  "collidePair c i j os =
     (let r = CheckCollision c (os ! i) (os ! j) in os[i := fst r, j := snd r])"

text \<open>The collision loop, lines 186-190, for the object at index \<open>i\<close>.\<close>

definition collisionLoop ::
  "'a::{plus,minus,times,uminus,inverse,ord,one} config \<Rightarrow> nat \<Rightarrow> 'a Object list \<Rightarrow> 'a Object list"
where
  "collisionLoop c i objs =
     fold (\<lambda>j os. if i \<noteq> j then collidePair c i j os else os) [0..<length objs] objs"

text \<open>
  The body of the outer loop, lines 126-190, for the object at index \<open>i\<close>. The draw call
  of lines 162-163 reads the object and changes nothing of it.
\<close>

definition bodyStep ::
  "'a::{plus,minus,times,uminus,inverse,ord,one} config \<Rightarrow> nat \<Rightarrow> 'a Object list \<Rightarrow> 'a Object list"
where
  "bodyStep c i objs =
     (let os1 = gravityLoop c i objs;
          os2 = os1[i := updatePosition c (os1 ! i)];
          os3 = os2[i := boundary (os2 ! i)]
      in collisionLoop c i os3)"

text \<open>The outer loop, lines 125-191: one tick.\<close>

definition tick ::
  "'a::{plus,minus,times,uminus,inverse,ord,one} config \<Rightarrow> 'a Object list \<Rightarrow> 'a Object list"
where
  "tick c objs = fold (bodyStep c) [0..<length objs] objs"

text \<open>
  The state of the frame loop of lines 117-195 and one iteration of it. The loop runs
  for as long as the window stays open; \<open>run c n\<close> is the state after \<open>n\<close> frames.
\<close>

record 'a sim =
  objs :: "'a Object list"
  simulationTime :: 'a



subsection \<open>The calls of \<^verbatim>\<open>CheckCollision\<close> in a tick\<close>

text \<open>
  The collision loop, the loop body and the tick once more, now on a pair: the vector of
  objects and the list of the calls \<^verbatim>\<open>objs[i].CheckCollision(objs[j])\<close> made so far, each
  written \<open>(i, j)\<close>. A call is recorded where line 188 makes it; everything else is as in
  \<open>collisionLoop\<close>, \<open>bodyStep\<close> and \<open>tick\<close>.
\<close>

definition collisionLoopT ::
  "'a::{plus,minus,times,uminus,inverse,ord,one} config \<Rightarrow> nat
     \<Rightarrow> 'a Object list \<times> (nat \<times> nat) list \<Rightarrow> 'a Object list \<times> (nat \<times> nat) list"
where
  "collisionLoopT c i w =
     fold (\<lambda>j (os, calls).
             if i \<noteq> j then (collidePair c i j os, calls @ [(i, j)]) else (os, calls))
       [0..<length (fst w)] w"

definition bodyStepT ::
  "'a::{plus,minus,times,uminus,inverse,ord,one} config \<Rightarrow> nat
     \<Rightarrow> 'a Object list \<times> (nat \<times> nat) list \<Rightarrow> 'a Object list \<times> (nat \<times> nat) list"
where
  "bodyStepT c i w =
     (let os1 = gravityLoop c i (fst w);
          os2 = os1[i := updatePosition c (os1 ! i)];
          os3 = os2[i := boundary (os2 ! i)]
      in collisionLoopT c i (os3, snd w))"

definition tickT ::
  "'a::{plus,minus,times,uminus,inverse,ord,one} config
     \<Rightarrow> 'a Object list \<times> (nat \<times> nat) list \<Rightarrow> 'a Object list \<times> (nat \<times> nat) list"
where
  "tickT c w = fold (bodyStepT c) [0..<length (fst w)] w"

text \<open>The calls the collision loop makes for the object at index \<open>i\<close> of \<open>n\<close> objects.\<close>

definition peers :: "nat \<Rightarrow> nat \<Rightarrow> (nat \<times> nat) list" where
  "peers n i = map (Pair i) (filter (\<lambda>j. i \<noteq> j) [0..<n])"

text \<open>The test of line 55.\<close>

definition overlaps ::
  "'a::{plus,minus,times,uminus,inverse,ord,one} config \<Rightarrow> 'a Object \<Rightarrow> 'a Object \<Rightarrow> bool"
where
  "overlaps c this other = (radius other + radius this > distanceSim c this other)"

subsection \<open>The divisors of the force computation\<close>

text \<open>
  The divisors of lines 138-149 in one pass of the inner loop for \<open>obj\<close> and \<open>obj2\<close>, in
  the order in which the pass divides by them: the space scale (line 138) and, unless the
  pass ends at line 142, the distance for each of the two components of the direction
  (line 146) and the squared real distance (line 149).
\<close>

definition forceDivisors ::
  "'a::{plus,minus,times,uminus,inverse,ord,one} config \<Rightarrow> 'a Object \<Rightarrow> 'a Object \<Rightarrow> 'a list"
where
  "forceDivisors c obj obj2 =
     SPACE_SCALE c #
       (if distanceReal c obj obj2 < realRadius obj + realRadius obj2 then []
        else [distanceSim c obj obj2, distanceSim c obj obj2,
              distanceReal c obj obj2 * distanceReal c obj obj2])"

subsection \<open>The arithmetic of \<^verbatim>\<open>float\<close>\<close>

text \<open>
  One interpretation of the operators: IEEE 754 binary32 with rounding to nearest, ties to
  even, which is what a C++ \<^verbatim>\<open>float\<close> is on the usual platforms. A finite number is a
  sign, a significand and an exponent, \<open>Finite s m e\<close> standing for \<open>m * 2^e\<close> (negated
  when \<open>s\<close> holds); the operations below produce \<open>m < 2^24\<close> and \<open>-149 \<le> e \<le> 104\<close>,
  with \<open>2^23 \<le> m\<close> unless \<open>e = -149\<close> (a subnormal number or a zero).
\<close>

datatype float32 = Finite bool nat int | Infinity bool | NaN

definition pow2 :: "int \<Rightarrow> real" where
  "pow2 e = (if 0 \<le> e then 2 ^ nat e else 1 / 2 ^ nat (- e))"

text \<open>The value of the finite number of sign \<open>s\<close>, significand \<open>m\<close> and exponent \<open>e\<close>.\<close>

definition valof :: "bool \<Rightarrow> nat \<Rightarrow> int \<Rightarrow> real" where
  "valof s m e = (if s then - (of_nat m * pow2 e) else of_nat m * pow2 e)"

text \<open>
  Rounding a magnitude \<open>a \<ge> 0\<close>: the exponent is the least \<open>e \<ge> -149\<close> with
  \<open>a < 2^(e + 24)\<close>, found by counting up; the significand is \<open>a / 2^e\<close> rounded to the
  nearest integer, ties to even; a significand of \<open>2^24\<close> moves to the next exponent, and
  an exponent above 104 is an overflow.
\<close>

fun expo :: "nat \<Rightarrow> int \<Rightarrow> (int \<Rightarrow> bool) \<Rightarrow> int" where
  "expo 0 e fits = e"
| "expo (Suc n) e fits = (if fits e then e else expo n (e + 1) fits)"

definition rne :: "real \<Rightarrow> int" where
  "rne q =
     (let f = \<lfloor>q\<rfloor>; r = q - of_int f
      in if r < 1 / 2 then f else if 1 / 2 < r then f + 1 else if even f then f else f + 1)"

definition pack :: "bool \<Rightarrow> int \<Rightarrow> int \<Rightarrow> float32" where
  "pack s m e =
     (let m' = (if m = 2 ^ 24 then 2 ^ 23 else m);
          e' = (if m = 2 ^ 24 then e + 1 else e)
      in if 104 < e' then Infinity s else Finite s (nat m') e')"

definition round32 :: "bool \<Rightarrow> real \<Rightarrow> float32" where
  "round32 s a =
     (let e = expo 254 (- 149) (\<lambda>e. a < pow2 (e + 24)) in pack s (rne (a / pow2 e)) e)"

text \<open>A decimal literal such as \<^verbatim>\<open>6.674e-11f\<close>: the nearest \<^verbatim>\<open>float\<close>.\<close>

definition f32 :: "real \<Rightarrow> float32" where
  "f32 q = (if q < 0 then round32 True (- q) else round32 False q)"

text \<open>
  The operations: the special cases of the standard first, then the exact result of the
  operation on the two values, rounded. An exact sum of zero is \<open>+0\<close> unless both operands
  are negative.
\<close>

fun fmul :: "float32 \<Rightarrow> float32 \<Rightarrow> float32" where
  "fmul NaN y = NaN"
| "fmul x NaN = NaN"
| "fmul (Infinity s) (Infinity t) = Infinity (s \<noteq> t)"
| "fmul (Infinity s) (Finite t n f) = (if n = 0 then NaN else Infinity (s \<noteq> t))"
| "fmul (Finite s m e) (Infinity t) = (if m = 0 then NaN else Infinity (s \<noteq> t))"
| "fmul (Finite s m e) (Finite t n f) =
     round32 (s \<noteq> t) (\<bar>valof s m e * valof t n f\<bar>)"

fun fdiv :: "float32 \<Rightarrow> float32 \<Rightarrow> float32" where
  "fdiv NaN y = NaN"
| "fdiv x NaN = NaN"
| "fdiv (Infinity s) (Infinity t) = NaN"
| "fdiv (Infinity s) (Finite t n f) = Infinity (s \<noteq> t)"
| "fdiv (Finite s m e) (Infinity t) = Finite (s \<noteq> t) 0 (- 149)"
| "fdiv (Finite s m e) (Finite t n f) =
     (if n = 0 then (if m = 0 then NaN else Infinity (s \<noteq> t))
      else round32 (s \<noteq> t) (\<bar>valof s m e / valof t n f\<bar>))"

fun fadd :: "float32 \<Rightarrow> float32 \<Rightarrow> float32" where
  "fadd NaN y = NaN"
| "fadd x NaN = NaN"
| "fadd (Infinity s) (Infinity t) = (if s = t then Infinity s else NaN)"
| "fadd (Infinity s) (Finite t n f) = Infinity s"
| "fadd (Finite s m e) (Infinity t) = Infinity t"
| "fadd (Finite s m e) (Finite t n f) =
     (let v = valof s m e + valof t n f
      in if v = 0 then Finite (s \<and> t) 0 (- 149) else round32 (v < 0) \<bar>v\<bar>)"

fun fneg :: "float32 \<Rightarrow> float32" where
  "fneg NaN = NaN"
| "fneg (Infinity s) = Infinity (\<not> s)"
| "fneg (Finite s m e) = Finite (\<not> s) m e"

fun fsqrt :: "float32 \<Rightarrow> float32" where
  "fsqrt NaN = NaN"
| "fsqrt (Infinity s) = (if s then NaN else Infinity False)"
| "fsqrt (Finite s m e) =
     (if m = 0 then Finite s 0 (- 149)
      else if s then NaN
      else round32 False (sqrt (valof s m e)))"

fun fless :: "float32 \<Rightarrow> float32 \<Rightarrow> bool" where
  "fless NaN y = False"
| "fless x NaN = False"
| "fless (Infinity s) (Infinity t) = (s \<and> \<not> t)"
| "fless (Infinity s) (Finite t n f) = s"
| "fless (Finite s m e) (Infinity t) = (\<not> t)"
| "fless (Finite s m e) (Finite t n f) = (valof s m e < valof t n f)"

fun fle :: "float32 \<Rightarrow> float32 \<Rightarrow> bool" where
  "fle NaN y = False"
| "fle x NaN = False"
| "fle (Infinity s) (Infinity t) = (s \<or> \<not> t)"
| "fle (Infinity s) (Finite t n f) = s"
| "fle (Finite s m e) (Infinity t) = (\<not> t)"
| "fle (Finite s m e) (Finite t n f) = (valof s m e \<le> valof t n f)"

instantiation float32 :: "{plus,minus,times,uminus,inverse,ord,one}"
begin

definition plus_float32 :: "float32 \<Rightarrow> float32 \<Rightarrow> float32" where
  "plus_float32 x y = fadd x y"

definition minus_float32 :: "float32 \<Rightarrow> float32 \<Rightarrow> float32" where
  "minus_float32 x y = fadd x (fneg y)"

definition times_float32 :: "float32 \<Rightarrow> float32 \<Rightarrow> float32" where
  "times_float32 x y = fmul x y"

definition uminus_float32 :: "float32 \<Rightarrow> float32" where
  "uminus_float32 x = fneg x"

definition one_float32 :: float32 where
  "one_float32 = Finite False (2 ^ 23) (- 23)"

definition divide_float32 :: "float32 \<Rightarrow> float32 \<Rightarrow> float32" where
  "divide_float32 x y = fdiv x y"

definition inverse_float32 :: "float32 \<Rightarrow> float32" where
  "inverse_float32 x = fdiv (Finite False (2 ^ 23) (- 23)) x"

definition less_float32 :: "float32 \<Rightarrow> float32 \<Rightarrow> bool" where
  "less_float32 x y = fless x y"

definition less_eq_float32 :: "float32 \<Rightarrow> float32 \<Rightarrow> bool" where
  "less_eq_float32 x y = fle x y"

instance ..

end

text \<open>
  A zero of either sign; the numbers the operations can produce (every \<^verbatim>\<open>float\<close> is one
  of them); and, for the proofs below, a number that is not finite or whose magnitude is at
  least \<open>2^k\<close>.
\<close>

definition is_zero :: "float32 \<Rightarrow> bool" where
  "is_zero x = (case x of Finite s m e \<Rightarrow> m = 0 | Infinity s \<Rightarrow> False | NaN \<Rightarrow> False)"

definition valid32 :: "float32 \<Rightarrow> bool" where
  "valid32 x =
     (case x of
        Finite s m e \<Rightarrow> m < 2 ^ 24 \<and> - 149 \<le> e \<and> e \<le> 104 \<and> (e = - 149 \<or> 2 ^ 23 \<le> m)
      | Infinity s \<Rightarrow> True
      | NaN \<Rightarrow> True)"

definition magnitude_ge :: "int \<Rightarrow> float32 \<Rightarrow> bool" where
  "magnitude_ge k x =
     (case x of Finite s m e \<Rightarrow> pow2 k \<le> of_nat m * pow2 e | Infinity s \<Rightarrow> True | NaN \<Rightarrow> True)"

subsection \<open>The objects the program starts from\<close>

text \<open>
  The constants of lines 13, 14 and 106 and the two objects of lines 83-100, with their
  decimal values in \<^typ>\<open>real\<close> and the exact square root.
\<close>

definition config_main :: "real config" where
  "config_main =
     \<lparr>G = 6.674 / 10 ^ 11, SPACE_SCALE = 1 / 10 ^ 9, TIME_SCALE = 50000, sqrtf = sqrt\<rparr>"

definition earth :: "real Object" where
  "earth =
     \<lparr>position = [0, 0], velocity = [0, 0], radius = 0.1,
      mass = 5.97 * 10 ^ 24, realRadius = 6371000\<rparr>"

definition moon :: "real Object" where
  "moon =
     \<lparr>position = [0.384, 0], velocity = [0, 1022], radius = 0.05,
      mass = 7.35 * 10 ^ 22, realRadius = 1737000\<rparr>"

subsection \<open>Further inputs used below\<close>

text \<open>An object wider than the screen.\<close>

definition oversized :: "real Object" where
  "oversized =
     \<lparr>position = [0, 0], velocity = [3, 4], radius = 2, mass = 1, realRadius = 1\<rparr>"



text \<open>
  The first tick of the Earth and the Moon, in exact arithmetic: the Earth after its turn,
  and the Moon after the gravity loop of its own turn.
\<close>

definition earth1 :: "real Object" where
  "earth1 = earth\<lparr>position := [163513 / 1966080000, 0], velocity := [163513 / 98304, 0]\<rparr>"

definition moon_acc :: "real Object" where
  "moon_acc = moon\<lparr>velocity := [- (77007479422058496000 / 569739958212796849), 1022]\<rparr>"

text \<open>Three objects in a row; the one at index 0 is in the middle and overlaps both others.\<close>

definition trio :: "real Object list" where
  "trio = [moon\<lparr>position := [0, 0]\<rparr>, earth\<lparr>position := [0.1, 0]\<rparr>,
           earth\<lparr>position := [- 0.1, 0]\<rparr>]"

text \<open>
  In binary32: the constants of the program, and two objects of masses 1000 and 7 at a
  distance of \<open>2^-30\<close>, which is a real distance of about 0.93 for radii of 0.25 each.
\<close>

definition config32 :: "float32 config" where
  "config32 =
     \<lparr>G = f32 (6.674 / 10 ^ 11), SPACE_SCALE = f32 (1 / 10 ^ 9), TIME_SCALE = f32 50000,
      sqrtf = fsqrt\<rparr>"

definition heavy32 :: "float32 Object" where
  "heavy32 =
     \<lparr>position = [f32 0, f32 0], velocity = [f32 0, f32 0], radius = f32 0.1,
      mass = f32 1000, realRadius = f32 0.25\<rparr>"

definition light32 :: "float32 Object" where
  "light32 =
     \<lparr>position = [f32 (1 / 2 ^ 30), f32 0], velocity = [f32 0, f32 0], radius = f32 0.1,
      mass = f32 7, realRadius = f32 0.25\<rparr>"

text \<open>
  The objects of lines 83-100 in binary32, and the first tick on them: the Earth after its
  turn, the Moon after the gravity loop of its own turn, and the Moon after its turn.
\<close>

definition earth32 :: "float32 Object" where
  "earth32 =
     \<lparr>position = [f32 0, f32 0], velocity = [f32 0, f32 0], radius = f32 0.1,
      mass = f32 (5.97 * 10 ^ 24), realRadius = f32 6371000\<rparr>"

definition moon32 :: "float32 Object" where
  "moon32 =
     \<lparr>position = [f32 0.384, f32 0], velocity = [f32 0, f32 1022], radius = f32 0.05,
      mass = f32 (7.35 * 10 ^ 22), realRadius = f32 1737000\<rparr>"

definition earth32_1 :: "float32 Object" where
  "earth32_1 =
     earth32\<lparr>position := [Finite False 11430386 (- 37), Finite False 0 (- 149)],
             velocity := [Finite False 13953108 (- 23), Finite False 0 (- 149)]\<rparr>"

definition moon32_acc :: "float32 Object" where
  "moon32_acc = moon32\<lparr>velocity := [Finite True 8858011 (- 16), Finite False 16744448 (- 14)]\<rparr>"

definition moon32_1 :: "float32 Object" where
  "moon32_1 = moon32_acc\<lparr>position := [Finite False 12658137 (- 25), Finite False 13717051 (- 28)]\<rparr>"

text \<open>The object wider than the screen, in binary32.\<close>

definition oversized32 :: "float32 Object" where
  "oversized32 =
     \<lparr>position = [f32 0, f32 0], velocity = [f32 3, f32 4], radius = f32 2, mass = f32 1,
      realRadius = f32 1\<rparr>"

text \<open>
  A small object near the lower right corner of the screen, and the Moon with a velocity of
  \<open>0.0001\<close> along the axis 0, both in binary32.
\<close>

definition cornered32 :: "float32 Object" where
  "cornered32 =
     \<lparr>position = [f32 0.98, f32 (- 0.97)], velocity = [f32 3, f32 (- 4)], radius = f32 0.05,
      mass = f32 1, realRadius = f32 1\<rparr>"

definition slow32 :: "float32 Object" where
  "slow32 = moon32\<lparr>velocity := [f32 (1 / 10 ^ 4), f32 0]\<rparr>"

section \<open>Properties\<close>

subsection \<open>Vectors of two components\<close>

lemma two_updates: "length xs = 2 \<Longrightarrow> xs[0 := a, Suc 0 := b] = [a, b]"
  by (cases xs; cases "tl xs") auto

subsection \<open>Evaluating binary32 arithmetic\<close>

text \<open>
  The operations on numerals are computed by rewriting with the definitions. The square
  root of line 135 is the correctly rounded one: its value is fixed by two inequalities
  between squares.
\<close>

lemma expo_numeral:
  "expo (numeral k) e fits = (if fits e then e else expo (pred_numeral k) (e + 1) fits)"
  by (simp add: numeral_eq_Suc)

lemmas float32_eval =
  f32_def round32_def pack_def rne_def pow2_def valof_def Let_def expo_numeral
  plus_float32_def minus_float32_def times_float32_def divide_float32_def less_float32_def
  uminus_float32_def one_float32_def

text \<open>
  Some values of the format: \<open>0.1f\<close> has the bits \<open>0x3DCCCCCD\<close>, \<open>0.1f + 0.2f\<close> the bits
  \<open>0x3E99999A\<close> and \<open>1.0f / 3.0f\<close> the bits \<open>0x3EAAAAAB\<close>; \<open>2^24 + 1\<close> and \<open>2^24 + 3\<close> are
  ties and go to the even neighbour; \<open>2^-149\<close> is the least positive value and half of it
  rounds to zero; \<open>2^128\<close> overflows.
\<close>

lemma binary32_values:
  "f32 0.1 = Finite False 13421773 (- 27)"
  "f32 0.1 + f32 0.2 = Finite False 10066330 (- 25)"
  "f32 1 / f32 3 = Finite False 11184811 (- 25)"
  "f32 16777217 = Finite False 8388608 1"
  "f32 16777219 = Finite False 8388610 1"
  "f32 (1 / 2 ^ 149) = Finite False 1 (- 149)"
  "f32 (1 / 2 ^ 149) / f32 2 = Finite False 0 (- 149)"
  "f32 (2 ^ 64) * f32 (2 ^ 64) = Infinity False"
  "f32 (- 1022) = f32 1022 * - 1"
  by (simp_all add: float32_eval)

lemma pow2_powr: "pow2 e = 2 powr (real_of_int e)"
  by (simp add: pow2_def powr_real_of_int inverse_eq_divide)

lemma pow2_pos: "0 < pow2 e"
  by (simp add: pow2_powr)

lemma pow2_add: "pow2 (a + b) = pow2 a * pow2 b"
  by (simp add: pow2_powr powr_add)

lemma pow2_mono: "a \<le> b \<Longrightarrow> pow2 a \<le> pow2 b"
  by (simp add: pow2_powr)

lemma pow2_int: "0 \<le> e \<Longrightarrow> pow2 e = of_int (2 ^ nat e)"
  by (simp add: pow2_def)

lemma expo_unique:
  assumes "e0 \<le> E" and "E \<le> e0 + int n" and "fits E"
    and "\<And>e. e0 \<le> e \<Longrightarrow> e < E \<Longrightarrow> \<not> fits e"
  shows "expo n e0 fits = E"
  using assms
proof (induction n arbitrary: e0)
  case 0
  then show ?case by simp
next
  case (Suc n)
  show ?case
  proof (cases "e0 = E")
    case True
    with Suc.prems(3) show ?thesis by simp
  next
    case False
    with Suc.prems(1) have lt: "e0 < E" by simp
    then have nf: "\<not> fits e0"
      using Suc.prems(4) [of e0] by simp
    have "expo n (e0 + 1) fits = E"
    proof (rule Suc.IH)
      show "e0 + 1 \<le> E" using lt by simp
      show "E \<le> e0 + 1 + int n" using Suc.prems(2) by simp
      show "fits E" by (rule Suc.prems(3))
      show "\<not> fits e" if "e0 + 1 \<le> e" "e < E" for e
        using that Suc.prems(4) [of e] by simp
    qed
    with nf show ?thesis by simp
  qed
qed

lemma rne_unique:
  assumes "of_int M - 1 / 2 < q" and "q < of_int M + 1 / 2"
  shows "rne q = M"
proof -
  have "\<lfloor>q\<rfloor> = M - 1 \<or> \<lfloor>q\<rfloor> = M"
    using assms by (simp add: floor_eq_iff) linarith
  then show ?thesis
  proof
    assume f: "\<lfloor>q\<rfloor> = M - 1"
    with assms(1) have "1 / 2 < q - of_int (M - 1)"
      by simp
    with f show ?thesis
      by (simp add: rne_def Let_def)
  next
    assume f: "\<lfloor>q\<rfloor> = M"
    with assms(2) have "q - of_int M < 1 / 2"
      by simp
    with f show ?thesis
      by (simp add: rne_def Let_def)
  qed
qed

lemma round32_sqrt:
  assumes lo: "((of_int M - 1 / 2) * pow2 E)\<^sup>2 < v"
    and hi: "v < ((of_int M + 1 / 2) * pow2 E)\<^sup>2"
    and M: "2 ^ 23 < M" "M < 2 ^ 24"
    and E: "- 149 \<le> E" "E \<le> 104"
  shows "round32 False (sqrt v) = Finite False (nat M) E"
proof -
  have pos: "0 < pow2 E"
    by (rule pow2_pos)
  have Mr: "(2 ^ 23 :: real) + 1 \<le> of_int M" "of_int M + 1 \<le> (2 ^ 24 :: real)"
    using M by (simp_all add: of_int_le_iff [symmetric] del: of_int_le_iff)
  have lo': "(of_int M - 1 / 2) * pow2 E < sqrt v"
    using lo by (rule real_less_rsqrt)
  have "0 \<le> (of_int M + 1 / 2) * pow2 E"
    using pos Mr by simp
  then have hi': "sqrt v < (of_int M + 1 / 2) * pow2 E"
    using hi by (intro real_less_lsqrt) simp_all
  have p24: "pow2 (E + 24) = 2 ^ 24 * pow2 E"
    using pow2_add [of 24 E] pow2_int [of 24] by (simp add: add.commute)
  have p23: "pow2 (E + 23) = 2 ^ 23 * pow2 E"
    using pow2_add [of 23 E] pow2_int [of 23] by (simp add: add.commute)
  have fits: "sqrt v < pow2 (E + 24)"
  proof -
    have "(of_int M + 1 / 2) * pow2 E \<le> 2 ^ 24 * pow2 E"
      using Mr pos by (intro mult_right_mono) simp_all
    with hi' show ?thesis
      unfolding p24 by simp
  qed
  have below: "\<not> sqrt v < pow2 (e + 24)" if "e < E" for e
  proof -
    have "pow2 (e + 24) \<le> pow2 (E + 23)"
      using that by (intro pow2_mono) simp
    also have "\<dots> \<le> (of_int M - 1 / 2) * pow2 E"
      unfolding p23 using Mr pos by (intro mult_right_mono) simp_all
    finally show ?thesis
      using lo' by simp
  qed
  have e: "expo 254 (- 149) (\<lambda>e. sqrt v < pow2 (e + 24)) = E"
    using E fits below by (intro expo_unique) simp_all
  have "rne (sqrt v / pow2 E) = M"
  proof (rule rne_unique)
    show "of_int M - 1 / 2 < sqrt v / pow2 E"
      using lo' pos by (simp add: pos_less_divide_eq)
    show "sqrt v / pow2 E < of_int M + 1 / 2"
      using hi' pos by (simp add: pos_divide_less_eq)
  qed
  with e M E show ?thesis
    by (simp add: round32_def pack_def Let_def)
qed

lemma zero32: "f32 0 = Finite False 0 (- 149)"
  by (simp add: float32_eval)

lemma round32_zero: "round32 s 0 = Finite s 0 (- 149)"
  by (simp add: float32_eval)

lemma config32_values:
  "config32 = \<lparr>G = Finite False 9618248 (- 57), SPACE_SCALE = Finite False 9007199 (- 53),
      TIME_SCALE = Finite False 12800000 (- 8), sqrtf = fsqrt\<rparr>"
  by (simp add: config32_def float32_eval)

lemma space_scale32: "SPACE_SCALE config32 = Finite False 9007199 (- 53)"
  by (simp add: config32_def float32_eval)

lemma earth32_values:
  "earth32 = \<lparr>position = [Finite False 0 (- 149), Finite False 0 (- 149)],
      velocity = [Finite False 0 (- 149), Finite False 0 (- 149)],
      radius = Finite False 13421773 (- 27), mass = Finite False 10356299 59,
      realRadius = Finite False 12742000 (- 1)\<rparr>"
  by (simp add: earth32_def float32_eval)

lemma moon32_values:
  "moon32 = \<lparr>position = [Finite False 12884902 (- 25), Finite False 0 (- 149)],
      velocity = [Finite False 0 (- 149), Finite False 16744448 (- 14)],
      radius = Finite False 13421773 (- 28), mass = Finite False 16320278 52,
      realRadius = Finite False 13896000 (- 3)\<rparr>"
  by (simp add: moon32_def float32_eval)

lemma fsqrt_9895605: "fsqrt (Finite False 9895605 (- 26)) = Finite False 12884902 (- 25)"
  using round32_sqrt [of 12884902 "- 25" "valof False 9895605 (- 26)"]
  by (simp add: valof_def pow2_def power2_eq_square)

lemma fsqrt_9891318: "fsqrt (Finite False 9891318 (- 26)) = Finite False 12882111 (- 25)"
  using round32_sqrt [of 12882111 "- 25" "valof False 9891318 (- 26)"]
  by (simp add: valof_def pow2_def power2_eq_square)

lemma fsqrt_9721383: "fsqrt (Finite False 9721383 (- 26)) = Finite False 12770973 (- 25)"
  using round32_sqrt [of 12770973 "- 25" "valof False 9721383 (- 26)"]
  by (simp add: valof_def pow2_def power2_eq_square)

lemma sqrt_2_60: "sqrt (1 / 1152921504606846976) = 1 / 1073741824"
  using real_sqrt_abs2 [of "1 / 1073741824"] by simp

lemma dist32_hl: "distanceSim config32 heavy32 light32 = Finite False 8388608 (- 53)"
  by (simp add: distanceSim_def config32_def heavy32_def light32_def float32_eval sqrt_2_60)

lemma dist32_lh: "distanceSim config32 light32 heavy32 = Finite False 8388608 (- 53)"
  by (simp add: distanceSim_def config32_def heavy32_def light32_def float32_eval sqrt_2_60)

lemma distReal32_hl: "distanceReal config32 heavy32 light32 = Finite False 15625000 (- 24)"
  unfolding distanceReal_def dist32_hl by (simp add: config32_def float32_eval)

lemma distReal32_lh: "distanceReal config32 light32 heavy32 = Finite False 15625000 (- 24)"
  unfolding distanceReal_def dist32_lh by (simp add: config32_def float32_eval)

subsection \<open>\<^verbatim>\<open>updatePosition\<close>\<close>




text \<open>
  Claim C8. \<^verbatim>\<open>updatePosition()\<close> adds \<open>velocity * timeScale * spaceScale\<close> to each of the
  two position components; the velocity, the display radius, the mass and the physical
  radius are as before, and the result does not depend on the other constants of the run.
\<close>

theorem updatePosition_adds_scaled_velocity:
  fixes c :: "'a::{plus,minus,times,uminus,inverse,ord,one} config"
  assumes "wf_Object obj"
  shows "position (updatePosition c obj) =
           [position obj ! 0 + velocity obj ! 0 * TIME_SCALE c * SPACE_SCALE c,
            position obj ! 1 + velocity obj ! 1 * TIME_SCALE c * SPACE_SCALE c]
         \<and> velocity (updatePosition c obj) = velocity obj
         \<and> radius (updatePosition c obj) = radius obj
         \<and> mass (updatePosition c obj) = mass obj
         \<and> realRadius (updatePosition c obj) = realRadius obj
         \<and> updatePosition (c\<lparr>G := g, sqrtf := s\<rparr>) obj = updatePosition c obj"
  using assms by (simp add: updatePosition_def wf_Object_def Let_def two_updates)

text \<open>
  Witness for C8: the Moon of line 93 moves from \<open>[0.384, 0]\<close> to \<open>[0.384, 0.0511]\<close>
  and keeps its velocity, whatever \<open>G\<close> and the square root are.
\<close>

theorem updatePosition_adds_scaled_velocity_witness:
  "wf_Object moon
   \<and> position (updatePosition config_main moon) = [0.384, 0.0511]
   \<and> velocity (updatePosition config_main moon) = [0, 1022]
   \<and> updatePosition (config_main\<lparr>G := 0, sqrtf := (\<lambda>x. x)\<rparr>) moon
       = updatePosition config_main moon"
  using updatePosition_adds_scaled_velocity
          [where obj = moon and c = config_main and g = 0 and s = "\<lambda>x. x"]
  by (simp add: wf_Object_def moon_def config_main_def)

subsection \<open>\<^verbatim>\<open>CheckCollision\<close>\<close>

text \<open>
  Claim C4. \<^verbatim>\<open>CheckCollision(other)\<close> finds a collision exactly when the distance
  \<open>sqrt (dx * dx + dy * dy)\<close> between the two positions is strictly below the sum of the
  two display radii. Then each velocity component of both objects is multiplied by
  \<open>-1\<close>; otherwise both objects are returned as they were. No position changes in either
  case.
\<close>

theorem CheckCollision_negates_on_overlap:
  fixes c :: "'a::{plus,minus,times,uminus,inverse,ord,one} config"
  assumes "wf_Object this" and "wf_Object other"
  shows "CheckCollision c this other =
           (if sqrtf c
                 ((position other ! 0 - position this ! 0) * (position other ! 0 - position this ! 0)
                  + (position other ! 1 - position this ! 1) * (position other ! 1 - position this ! 1))
               < radius other + radius this
            then (this\<lparr>velocity := [velocity this ! 0 * (- 1), velocity this ! 1 * (- 1)]\<rparr>,
                  other\<lparr>velocity := [velocity other ! 0 * (- 1), velocity other ! 1 * (- 1)]\<rparr>)
            else (this, other))
         \<and> position (fst (CheckCollision c this other)) = position this
         \<and> position (snd (CheckCollision c this other)) = position other"
  using assms
  by (simp add: CheckCollision_def negateVelocity_def distanceSim_def wf_Object_def Let_def
      two_updates)

text \<open>
  Witness for C4: the Moon moved to \<open>[0.1, 0]\<close> overlaps the Earth (distance \<open>0.1\<close>, radii
  \<open>0.1 + 0.05\<close>) and both velocities are negated; the Moon at \<open>[0.384, 0]\<close> does not,
  and both objects stay as they are.
\<close>

theorem CheckCollision_negates_on_overlap_witness:
  "wf_Object earth \<and> wf_Object moon \<and> wf_Object (moon\<lparr>position := [0.1, 0]\<rparr>)
   \<and> CheckCollision config_main (moon\<lparr>position := [0.1, 0]\<rparr>) earth
       = (moon\<lparr>position := [0.1, 0], velocity := [0, - 1022]\<rparr>, earth)
   \<and> CheckCollision config_main moon earth = (moon, earth)"
proof -
  have near: "sqrt (1 / 100) = 1 / 10"
    using real_sqrt_abs2 [of "1 / 10"] by simp
  have far: "sqrt (2304 / 15625) = 48 / 125"
    using real_sqrt_abs2 [of "48 / 125"] by simp
  show ?thesis
    using CheckCollision_negates_on_overlap
            [where this = "moon\<lparr>position := [0.1, 0]\<rparr>" and other = earth and c = config_main]
          CheckCollision_negates_on_overlap
            [where this = moon and other = earth and c = config_main]
    by (simp add: wf_Object_def moon_def earth_def config_main_def near far)
qed

subsection \<open>The minimum-separation test of the gravity loop\<close>

text \<open>
  Claim C5. If, for the object \<open>A\<close> at index \<open>i\<close> and the object \<open>B\<close> at index \<open>j\<close>, the
  simulation-space distance divided by the space scale is below the sum of the two physical
  radii, the pass of the inner loop for this pair returns \<open>A\<close> as it was (so its velocity
  does not change) and the vector of objects is left as it was. The model has no error
  value: the pair is passed over and nothing else happens.
\<close>

theorem gravity_skipped_below_minimum_separation:
  fixes c :: "'a::{plus,minus,times,uminus,inverse,ord,one} config"
  assumes "distanceSim c (os ! i) (os ! j) / SPACE_SCALE c
             < realRadius (os ! i) + realRadius (os ! j)"
  shows "gravityStep c (os ! j) (os ! i) = os ! i
         \<and> os[i := gravityStep c (os ! j) (os ! i)] = os"
  using assms by (simp add: gravityStep_def force_def direction_def distanceReal_def)

text \<open>
  Witness for C5: with the Moon at \<open>[0.005, 0]\<close> the real distance is \<open>5000000\<close>, below
  \<open>6371000 + 1737000\<close>, and the Earth is returned unchanged; with the Moon at its
  place of line 94 the same step does change the Earth's velocity.
\<close>

theorem gravity_skipped_below_minimum_separation_witness:
  "distanceSim config_main ([earth, moon\<lparr>position := [0.005, 0]\<rparr>] ! 0)
       ([earth, moon\<lparr>position := [0.005, 0]\<rparr>] ! 1) / SPACE_SCALE config_main = 5000000
   \<and> realRadius earth + realRadius moon = 8108000
   \<and> gravityStep config_main (moon\<lparr>position := [0.005, 0]\<rparr>) earth = earth
   \<and> velocity (gravityStep config_main moon earth) = [163513 / 98304, 0]"
proof -
  have d: "sqrt (1 / 40000) = 1 / 200"
    using real_sqrt_abs2 [of "1 / 200"] by simp
  have far: "sqrt (2304 / 15625) = 48 / 125"
    using real_sqrt_abs2 [of "48 / 125"] by simp
  have h: "distanceSim config_main ([earth, moon\<lparr>position := [0.005, 0]\<rparr>] ! 0)
       ([earth, moon\<lparr>position := [0.005, 0]\<rparr>] ! 1) / SPACE_SCALE config_main
     < realRadius ([earth, moon\<lparr>position := [0.005, 0]\<rparr>] ! 0)
       + realRadius ([earth, moon\<lparr>position := [0.005, 0]\<rparr>] ! 1)"
    by (simp add: distanceSim_def config_main_def earth_def moon_def d)
  have g: "velocity (gravityStep config_main moon earth) = [163513 / 98304, 0]"
    by (simp add: gravityStep_def force_def direction_def distanceReal_def distanceSim_def accelerate_def
        config_main_def earth_def moon_def far)
  show ?thesis
    using gravity_skipped_below_minimum_separation [OF h] g
    by (simp add: distanceSim_def config_main_def earth_def moon_def d)
qed

subsection \<open>A single object\<close>


lemma gravityLoop_single: "gravityLoop c 0 [b] = [b]"
  by (simp add: gravityLoop_def)

lemma collisionLoop_single: "collisionLoop c 0 [b] = [b]"
  by (simp add: collisionLoop_def)

lemma tick_single: "tick c [b] = [boundary (updatePosition c b)]"
  by (simp add: tick_def bodyStep_def gravityLoop_single collisionLoop_single)







text \<open>
  Nothing is said above of when the position keeps its value. In binary32 a sum can
  return its first operand although the second is not zero: the Moon with the velocity
  \<open>[0.0001f, 0]\<close> has the increment \<open>11258999 * 2^-51\<close> on the axis 0, less than half a
  unit in the last place of \<open>0.384f\<close>, and is unchanged by a tick.
\<close>

lemma single_body_absorbed_increment:
  "velocity slow32 ! 0 * TIME_SCALE config32 * SPACE_SCALE config32 = Finite False 11258999 (- 51)
   \<and> tick config32 [slow32] = [slow32]"
proof -
  have v: "slow32 =
     \<lparr>position = [Finite False 12884902 (- 25), Finite False 0 (- 149)],
      velocity = [Finite False 13743895 (- 37), Finite False 0 (- 149)],
      radius = Finite False 13421773 (- 28), mass = Finite False 16320278 52,
      realRadius = Finite False 13896000 (- 3)\<rparr>"
    unfolding slow32_def moon32_values by (simp add: float32_eval)
  have inc: "velocity slow32 ! 0 * TIME_SCALE config32 * SPACE_SCALE config32
      = Finite False 11258999 (- 51)"
    unfolding v config32_values by (simp add: float32_eval)
  have t: "tick config32 [slow32] = [slow32]"
    unfolding tick_single v config32_values
    by (simp add: boundary_def updatePosition_def float32_eval)
  from inc t show ?thesis
    by blast
qed

subsection \<open>Determinism\<close>

text \<open>
  Claim C9 has no theorem here. In this embedding a run is the function \<open>run\<close> of the
  constants, the initial state and the number of frames, and every function gives equal
  results on equal arguments, whatever it computes: the statement would hold as well of a
  wrong translation of the tick. What the claim says of the program is that lines 117-195
  read no clock and no source of randomness, and that a \<^verbatim>\<open>float\<close> operation gives the same
  result whenever it gets the same operands. The translation takes both from the source
  text and from the platform; it cannot prove them.
\<close>

subsection \<open>Two objects\<close>

lemma distanceSim_horizontal:
  fixes c :: "real config"
  assumes "sqrtf c = sqrt" and "position a ! 1 = position b ! 1"
  shows "distanceSim c a b = \<bar>position b ! 0 - position a ! 0\<bar>"
  using assms by (simp add: distanceSim_def)

lemma distanceSim_ge_dx:
  fixes c :: "real config"
  assumes "sqrtf c = sqrt"
  shows "\<bar>position b ! 0 - position a ! 0\<bar> \<le> distanceSim c a b"
proof -
  let ?dx = "position b ! 0 - position a ! 0"
  let ?dy = "position b ! 1 - position a ! 1"
  have "\<bar>?dx\<bar> = sqrt (?dx * ?dx)"
    by simp
  also have "\<dots> \<le> sqrt (?dx * ?dx + ?dy * ?dy)"
    by (rule real_sqrt_le_mono) simp
  finally show ?thesis
    using assms by (simp add: distanceSim_def Let_def)
qed

lemma CheckCollision_far_apart:
  fixes c :: "real config"
  assumes "sqrtf c = sqrt" and "radius b + radius a \<le> \<bar>position b ! 0 - position a ! 0\<bar>"
  shows "CheckCollision c a b = (a, b)"
  using distanceSim_ge_dx [OF assms(1), of b a] assms(2) by (simp add: CheckCollision_def)

lemma tick_two: "tick c [a, b] = bodyStep c 1 (bodyStep c 0 [a, b])"
  by (simp add: tick_def)

lemma gravityLoop_two_0: "gravityLoop c 0 [a, b] = [gravityStep c b a, b]"
  by (simp add: gravityLoop_def)

lemma gravityLoop_two_1: "gravityLoop c (Suc 0) [a, b] = [a, gravityStep c a b]"
  by (simp add: gravityLoop_def)

lemma collisionLoop_two_0:
  "collisionLoop c 0 [a, b] = [fst (CheckCollision c a b), snd (CheckCollision c a b)]"
  by (simp add: collisionLoop_def collidePair_def Let_def)

lemma collisionLoop_two_1:
  "collisionLoop c (Suc 0) [a, b] = [snd (CheckCollision c b a), fst (CheckCollision c b a)]"
  by (simp add: collisionLoop_def collidePair_def Let_def)

lemma bodyStep_two_0:
  "bodyStep c 0 [a, b] =
     [fst (CheckCollision c (boundary (updatePosition c (gravityStep c b a))) b),
      snd (CheckCollision c (boundary (updatePosition c (gravityStep c b a))) b)]"
  by (simp add: bodyStep_def gravityLoop_two_0 collisionLoop_two_0 Let_def)

lemma bodyStep_two_1:
  "bodyStep c (Suc 0) [a, b] =
     [snd (CheckCollision c (boundary (updatePosition c (gravityStep c a b))) a),
      fst (CheckCollision c (boundary (updatePosition c (gravityStep c a b))) a)]"
  by (simp add: bodyStep_def gravityLoop_two_1 collisionLoop_two_1 Let_def)

text \<open>The first tick of the Earth and the Moon in exact arithmetic.\<close>

lemma earth_turn: "bodyStep config_main 0 [earth, moon] = [earth1, moon]"
  by (simp add: bodyStep_two_0 gravityStep_def force_def direction_def distanceReal_def distanceSim_horizontal accelerate_def
        updatePosition_def boundary_def CheckCollision_def
        config_main_def earth_def moon_def earth1_def)

lemma moon_gravity: "gravityStep config_main earth1 moon = moon_acc"
  by (simp add: gravityStep_def force_def direction_def distanceReal_def distanceSim_horizontal accelerate_def
        config_main_def earth_def moon_def earth1_def moon_acc_def)

lemma moon_accelerated:
  "gravityLoop config_main 1 (bodyStep config_main 0 [earth, moon]) ! 1 = moon_acc"
  unfolding earth_turn by (simp add: gravityLoop_two_1 moon_gravity)

lemma moon_no_clamp: "boundary (updatePosition config_main moon_acc) = updatePosition config_main moon_acc"
  by (simp add: updatePosition_def boundary_def config_main_def moon_def moon_acc_def)

lemma moon_no_collision:
  "CheckCollision config_main (updatePosition config_main moon_acc) earth1
     = (updatePosition config_main moon_acc, earth1)"
  by (rule CheckCollision_far_apart)
     (simp_all add: updatePosition_def config_main_def earth_def moon_def earth1_def moon_acc_def)

lemma moon_turn: "tick config_main [earth, moon] ! 1 = updatePosition config_main moon_acc"
  unfolding tick_two earth_turn
  by (simp add: bodyStep_two_1 moon_gravity moon_no_clamp moon_no_collision)

text \<open>The first tick of the Earth and the Moon in binary32.\<close>

lemma dist32_em: "distanceSim config32 earth32 moon32 = Finite False 12884902 (- 25)"
  unfolding earth32_values moon32_values config32_values
  by (simp add: distanceSim_def float32_eval fsqrt_9895605 del: fsqrt.simps)

lemma distReal32_em: "distanceReal config32 earth32 moon32 = Finite False 12000000 5"
  unfolding distanceReal_def dist32_em
  by (simp add: config32_values float32_eval)

lemma force32_em: "force config32 earth32 moon32 = Finite False 11289263 44"
  unfolding force_def distReal32_em
  by (simp add: config32_values earth32_values moon32_values float32_eval)

lemma direction32_em:
  "direction config32 earth32 moon32 = [Finite False 8388608 (- 23), Finite False 0 (- 149)]"
  unfolding direction_def dist32_em
  by (simp add: earth32_values moon32_values float32_eval)

lemma earth32_gravity:
  "gravityStep config32 moon32 earth32
     = earth32\<lparr>velocity := [Finite False 13953108 (- 23), Finite False 0 (- 149)]\<rparr>"
  unfolding gravityStep_def distReal32_em force32_em direction32_em
  by (simp add: accelerate_def config32_values earth32_values moon32_values float32_eval)

lemma earth32_1_values:
  "earth32_1 = \<lparr>position = [Finite False 11430386 (- 37), Finite False 0 (- 149)],
      velocity = [Finite False 13953108 (- 23), Finite False 0 (- 149)],
      radius = Finite False 13421773 (- 27), mass = Finite False 10356299 59,
      realRadius = Finite False 12742000 (- 1)\<rparr>"
  by (simp add: earth32_1_def earth32_values)

lemma moon32_acc_values:
  "moon32_acc = \<lparr>position = [Finite False 12884902 (- 25), Finite False 0 (- 149)],
      velocity = [Finite True 8858011 (- 16), Finite False 16744448 (- 14)],
      radius = Finite False 13421773 (- 28), mass = Finite False 16320278 52,
      realRadius = Finite False 13896000 (- 3)\<rparr>"
  by (simp add: moon32_acc_def moon32_values)

lemma earth32_moved:
  "updatePosition config32 (earth32\<lparr>velocity := [Finite False 13953108 (- 23), Finite False 0 (- 149)]\<rparr>)
     = earth32_1"
  unfolding earth32_1_values
  by (simp add: updatePosition_def config32_values earth32_values float32_eval)

lemma earth32_no_clamp: "boundary earth32_1 = earth32_1"
  unfolding earth32_1_values by (simp add: boundary_def float32_eval)

lemma dist32_e1m: "distanceSim config32 earth32_1 moon32 = Finite False 12882111 (- 25)"
  unfolding earth32_1_values moon32_values config32_values
  by (simp add: distanceSim_def float32_eval fsqrt_9891318 del: fsqrt.simps)

lemma earth32_no_collision: "CheckCollision config32 earth32_1 moon32 = (earth32_1, moon32)"
  unfolding CheckCollision_def dist32_e1m
  by (simp add: earth32_1_values moon32_values float32_eval)

lemma earth32_turn: "bodyStep config32 0 [earth32, moon32] = [earth32_1, moon32]"
  by (simp add: bodyStep_two_0 earth32_gravity earth32_moved earth32_no_clamp earth32_no_collision)

lemma dist32_me1: "distanceSim config32 moon32 earth32_1 = Finite False 12882111 (- 25)"
  unfolding earth32_1_values moon32_values config32_values
  by (simp add: distanceSim_def float32_eval fsqrt_9891318 del: fsqrt.simps)

lemma distReal32_me1: "distanceReal config32 moon32 earth32_1 = Finite False 11997401 5"
  unfolding distanceReal_def dist32_me1
  by (simp add: config32_values float32_eval)

lemma force32_me1: "force config32 moon32 earth32_1 = Finite False 11294156 44"
  unfolding force_def distReal32_me1
  by (simp add: config32_values earth32_1_values moon32_values float32_eval)

lemma direction32_me1:
  "direction config32 moon32 earth32_1 = [Finite True 8388608 (- 23), Finite False 0 (- 149)]"
  unfolding direction_def dist32_me1
  by (simp add: earth32_1_values moon32_values float32_eval)

lemma moon32_gravity: "gravityStep config32 earth32_1 moon32 = moon32_acc"
  unfolding gravityStep_def distReal32_me1 force32_me1 direction32_me1 moon32_acc_values
  by (simp add: accelerate_def config32_values earth32_1_values moon32_values float32_eval)

lemma moon32_1_values:
  "moon32_1 = \<lparr>position = [Finite False 12658137 (- 25), Finite False 13717051 (- 28)],
      velocity = [Finite True 8858011 (- 16), Finite False 16744448 (- 14)],
      radius = Finite False 13421773 (- 28), mass = Finite False 16320278 52,
      realRadius = Finite False 13896000 (- 3)\<rparr>"
  by (simp add: moon32_1_def moon32_acc_values)

lemma moon32_moved: "updatePosition config32 moon32_acc = moon32_1"
  unfolding moon32_acc_values moon32_1_values
  by (simp add: updatePosition_def config32_values float32_eval)

lemma moon32_no_clamp: "boundary moon32_1 = moon32_1"
  unfolding moon32_1_values by (simp add: boundary_def float32_eval)

lemma dist32_m1e1: "distanceSim config32 moon32_1 earth32_1 = Finite False 12770973 (- 25)"
  unfolding moon32_1_values earth32_1_values config32_values
  by (simp add: distanceSim_def float32_eval fsqrt_9721383 del: fsqrt.simps)

lemma moon32_no_collision: "CheckCollision config32 moon32_1 earth32_1 = (moon32_1, earth32_1)"
  unfolding CheckCollision_def dist32_m1e1
  by (simp add: moon32_1_values earth32_1_values float32_eval)

lemma moon32_accelerated:
  "gravityLoop config32 1 (bodyStep config32 0 [earth32, moon32]) ! 1 = moon32_acc"
  unfolding earth32_turn by (simp add: gravityLoop_two_1 moon32_gravity)

lemma moon32_turn: "tick config32 [earth32, moon32] ! 1 = moon32_1"
  unfolding tick_two earth32_turn
  by (simp add: bodyStep_two_1 moon32_gravity moon32_moved moon32_no_clamp moon32_no_collision)

text \<open>
  Claim C1 as stated fails, in exact arithmetic and in binary32 alike. Advanced with the
  velocity \<open>[0, 1022]\<close> it has before the tick, the Moon would be at \<open>[0.384, 0.0511]\<close>
  (in binary32 at \<open>[12884902 * 2^-25, 13717051 * 2^-28]\<close>). After the first tick its
  first coordinate is below \<open>0.378\<close> (in binary32 it is \<open>12658137 * 2^-25\<close>, about
  \<open>0.37724\<close>): the gravity loop of lines 127-156 has changed the velocity before line 159
  moves the object.
\<close>

theorem moon_first_tick_counterexample:
  "position (updatePosition config_main moon) = [0.384, 0.0511]
   \<and> position (tick config_main [earth, moon] ! 1) \<noteq> position (updatePosition config_main moon)
   \<and> position (tick config_main [earth, moon] ! 1) ! 0 < 0.378
   \<and> position (updatePosition config32 moon32)
       = [Finite False 12884902 (- 25), Finite False 13717051 (- 28)]
   \<and> position (tick config32 [earth32, moon32] ! 1)
       = [Finite False 12658137 (- 25), Finite False 13717051 (- 28)]
   \<and> position (tick config32 [earth32, moon32] ! 1) \<noteq> position (updatePosition config32 moon32)"
proof -
  have exact: "position (updatePosition config_main moon) = [0.384, 0.0511]
      \<and> position (tick config_main [earth, moon] ! 1) \<noteq> position (updatePosition config_main moon)
      \<and> position (tick config_main [earth, moon] ! 1) ! 0 < 0.378"
    unfolding moon_turn
    by (simp add: updatePosition_def config_main_def moon_def moon_acc_def)
  have before: "position (updatePosition config32 moon32)
      = [Finite False 12884902 (- 25), Finite False 13717051 (- 28)]"
    unfolding moon32_values config32_values
    by (simp add: updatePosition_def float32_eval)
  have after: "position (tick config32 [earth32, moon32] ! 1)
      = [Finite False 12658137 (- 25), Finite False 13717051 (- 28)]"
    unfolding moon32_turn by (simp add: moon32_1_values)
  have differs: "position (tick config32 [earth32, moon32] ! 1)
      \<noteq> position (updatePosition config32 moon32)"
    unfolding before after by simp
  from exact before after differs show ?thesis
    by blast
qed

text \<open>
  Claim C1, amended. In the first tick of the Earth and the Moon, the Moon is advanced by
  \<^verbatim>\<open>updatePosition()\<close> with the velocity it has after the gravity loop of this tick has
  accelerated it: the velocity goes from \<open>[0, 1022]\<close> to about \<open>[-135.2, 1022]\<close>
  first (in binary32 to \<open>[-8858011 * 2^-16, 1022]\<close>), and the new position is the old one
  plus this velocity times \<open>timeScale * spaceScale\<close>; neither the boundary test nor the
  collision loop changes the Moon in this tick. Stated in exact arithmetic and in binary32.
\<close>

theorem moon_first_tick_uses_accelerated_velocity:
  "velocity moon = [0, 1022]
   \<and> velocity (gravityLoop config_main 1 (bodyStep config_main 0 [earth, moon]) ! 1)
       = [- (77007479422058496000 / 569739958212796849), 1022]
   \<and> tick config_main [earth, moon] ! 1
       = updatePosition config_main
           (gravityLoop config_main 1 (bodyStep config_main 0 [earth, moon]) ! 1)
   \<and> position (tick config_main [earth, moon] ! 1)
       = [0.384 + - (77007479422058496000 / 569739958212796849) * 50000 * (1 / 10 ^ 9),
          0 + 1022 * 50000 * (1 / 10 ^ 9)]
   \<and> velocity moon32 = [f32 0, f32 1022]
   \<and> velocity (gravityLoop config32 1 (bodyStep config32 0 [earth32, moon32]) ! 1)
       = [Finite True 8858011 (- 16), f32 1022]
   \<and> tick config32 [earth32, moon32] ! 1
       = updatePosition config32
           (gravityLoop config32 1 (bodyStep config32 0 [earth32, moon32]) ! 1)
   \<and> position (tick config32 [earth32, moon32] ! 1)
       = [f32 0.384 + Finite True 8858011 (- 16) * f32 50000 * f32 (1 / 10 ^ 9),
          f32 0 + f32 1022 * f32 50000 * f32 (1 / 10 ^ 9)]"
proof -
  have exact: "velocity moon = [0, 1022]
      \<and> velocity (gravityLoop config_main 1 (bodyStep config_main 0 [earth, moon]) ! 1)
          = [- (77007479422058496000 / 569739958212796849), 1022]
      \<and> tick config_main [earth, moon] ! 1
          = updatePosition config_main
              (gravityLoop config_main 1 (bodyStep config_main 0 [earth, moon]) ! 1)
      \<and> position (tick config_main [earth, moon] ! 1)
          = [0.384 + - (77007479422058496000 / 569739958212796849) * 50000 * (1 / 10 ^ 9),
             0 + 1022 * 50000 * (1 / 10 ^ 9)]"
    unfolding moon_turn moon_accelerated
    by (simp add: updatePosition_def config_main_def moon_def moon_acc_def)
  have v0: "velocity moon32 = [f32 0, f32 1022]"
    by (simp add: moon32_def)
  have v1: "velocity (gravityLoop config32 1 (bodyStep config32 0 [earth32, moon32]) ! 1)
      = [Finite True 8858011 (- 16), f32 1022]"
    unfolding moon32_accelerated by (simp add: moon32_acc_def moon32_def float32_eval)
  have step: "tick config32 [earth32, moon32] ! 1
      = updatePosition config32
          (gravityLoop config32 1 (bodyStep config32 0 [earth32, moon32]) ! 1)"
    unfolding moon32_turn moon32_accelerated by (simp add: moon32_moved)
  have pos: "position (tick config32 [earth32, moon32] ! 1)
      = [f32 0.384 + Finite True 8858011 (- 16) * f32 50000 * f32 (1 / 10 ^ 9),
         f32 0 + f32 1022 * f32 50000 * f32 (1 / 10 ^ 9)]"
    unfolding moon32_turn moon32_1_values by (simp add: float32_eval)
  from exact v0 v1 step pos show ?thesis
    by blast
qed

subsection \<open>The calls of the collision loop\<close>

lemma length_collidePair: "length (collidePair c i j os) = length os"
  by (simp add: collidePair_def Let_def)

lemma length_fold_keep:
  assumes "\<And>j os. length (f j os) = length os"
  shows "length (fold f js os) = length os"
  using assms by (induction js arbitrary: os) simp_all

lemma length_collisionLoop: "length (collisionLoop c i os) = length os"
  unfolding collisionLoop_def by (rule length_fold_keep) (simp add: length_collidePair)

lemma length_gravityLoop: "length (gravityLoop c i os) = length os"
  unfolding gravityLoop_def by (rule length_fold_keep) simp

lemma length_bodyStep: "length (bodyStep c i os) = length os"
  by (simp add: bodyStep_def Let_def length_collisionLoop length_gravityLoop)

lemma fold_traced:
  "fold (\<lambda>j (os, calls). if P j then (f j os, calls @ [g j]) else (os, calls)) js (os, calls)
   = (fold (\<lambda>j os. if P j then f j os else os) js os, calls @ map g (filter P js))"
  by (induction js arbitrary: os calls) simp_all

lemma collisionLoopT_eq:
  "collisionLoopT c i (os, calls) = (collisionLoop c i os, calls @ peers (length os) i)"
  by (simp add: collisionLoopT_def collisionLoop_def peers_def fold_traced)

lemma bodyStepT_eq:
  "bodyStepT c i (os, calls) = (bodyStep c i os, calls @ peers (length os) i)"
  by (simp add: bodyStepT_def bodyStep_def Let_def collisionLoopT_eq length_gravityLoop)

lemma body_fold_traced:
  "fold (bodyStepT c) is (os, calls)
   = (fold (bodyStep c) is os, calls @ concat (map (peers (length os)) is))"
  by (induction "is" arbitrary: os calls) (simp_all add: bodyStepT_eq length_bodyStep)

lemma tickT_eq:
  "tickT c (os, calls) = (tick c os, calls @ concat (map (peers (length os)) [0..<length os]))"
  by (simp add: tickT_def tick_def body_fold_traced)

lemma count_peers:
  "count_list (peers n k) (i, j) = (if k = i \<and> i \<noteq> j \<and> j < n then 1 else 0)"
  by (induction n) (auto simp add: peers_def)

lemma count_calls:
  "count_list (concat (map (peers n) [0..<m])) (i, j) = (if i < m \<and> i \<noteq> j \<and> j < n then 1 else 0)"
  by (induction m) (auto simp add: count_peers)

lemma count_unordered:
  "i \<noteq> j \<Longrightarrow> length (filter (\<lambda>(a, b). {a, b} = {i, j}) xs) = count_list xs (i, j) + count_list xs (j, i)"
  by (induction xs) (auto simp add: doubleton_eq_iff)

lemma negateVelocity_position: "position (negateVelocity obj) = position obj"
  by (simp add: negateVelocity_def Let_def)

lemma negateVelocity_radius: "radius (negateVelocity obj) = radius obj"
  by (simp add: negateVelocity_def Let_def)

lemma overlaps_negateVelocity: "overlaps c (negateVelocity a) b = overlaps c a b"
  by (simp add: overlaps_def distanceSim_def negateVelocity_position negateVelocity_radius)

lemma CheckCollision_overlaps:
  "CheckCollision c a b = (if overlaps c a b then (negateVelocity a, negateVelocity b) else (a, b))"
  by (simp add: CheckCollision_def overlaps_def)

lemma collidePair_self:
  "i < length os \<Longrightarrow> i \<noteq> j \<Longrightarrow>
   collidePair c i j os ! i = (if overlaps c (os ! i) (os ! j) then negateVelocity (os ! i) else os ! i)"
  by (simp add: collidePair_def CheckCollision_overlaps)

lemma collidePair_other:
  "k \<noteq> i \<Longrightarrow> k \<noteq> j \<Longrightarrow> collidePair c i j os ! k = os ! k"
  by (simp add: collidePair_def Let_def)

lemma collision_fold_self:
  assumes "i < length os" and "distinct js"
  shows "fold (\<lambda>j os. if i \<noteq> j then collidePair c i j os else os) js os ! i
         = (negateVelocity ^^ length (filter (\<lambda>j. i \<noteq> j \<and> overlaps c (os ! i) (os ! j)) js)) (os ! i)"
  using assms
proof (induction js arbitrary: os)
  case Nil
  then show ?case by simp
next
  case (Cons j js)
  let ?step = "\<lambda>j os. if i \<noteq> j then collidePair c i j os else os"
  let ?os = "?step j os"
  have len: "i < length ?os"
    using Cons.prems(1) by (simp add: length_collidePair)
  have dist: "distinct js" and fresh: "j \<notin> set js"
    using Cons.prems(2) by simp_all
  have same: "(i \<noteq> k \<and> overlaps c (?os ! i) (?os ! k)) = (i \<noteq> k \<and> overlaps c (os ! i) (os ! k))"
    if "k \<in> set js" for k
  proof (cases "i = k \<or> i = j")
    case True
    then show ?thesis by auto
  next
    case False
    with that fresh have "k \<noteq> i" "k \<noteq> j" by auto
    then have "?os ! k = os ! k"
      using False by (simp add: collidePair_other)
    moreover have "overlaps c (?os ! i) x = overlaps c (os ! i) x" for x
      using False Cons.prems(1) by (simp add: collidePair_self overlaps_negateVelocity)
    ultimately show ?thesis by simp
  qed
  have filt: "filter (\<lambda>k. i \<noteq> k \<and> overlaps c (?os ! i) (?os ! k)) js
              = filter (\<lambda>k. i \<noteq> k \<and> overlaps c (os ! i) (os ! k)) js"
    by (rule filter_cong) (simp_all add: same)
  have "fold ?step (j # js) os ! i = fold ?step js ?os ! i"
    by simp
  also have "\<dots> = (negateVelocity ^^ length (filter (\<lambda>k. i \<noteq> k \<and> overlaps c (?os ! i) (?os ! k)) js)) (?os ! i)"
    by (rule Cons.IH [OF len dist])
  also have "\<dots> = (negateVelocity ^^ length (filter (\<lambda>k. i \<noteq> k \<and> overlaps c (os ! i) (os ! k)) js)) (?os ! i)"
    by (simp only: filt)
  also have "\<dots> = (negateVelocity ^^ length (filter (\<lambda>k. i \<noteq> k \<and> overlaps c (os ! i) (os ! k)) (j # js))) (os ! i)"
    using Cons.prems(1) by (simp add: collidePair_self funpow_swap1)
  finally show ?case .
qed

lemma collisionLoop_self:
  "i < length os \<Longrightarrow>
   collisionLoop c i os ! i
     = (negateVelocity ^^ length (filter (\<lambda>j. i \<noteq> j \<and> overlaps c (os ! i) (os ! j)) [0..<length os])) (os ! i)"
  unfolding collisionLoop_def by (rule collision_fold_self) simp_all

text \<open>
  Claim C2 as stated fails, whatever the arithmetic. In one tick of the Earth and the Moon,
  \<^verbatim>\<open>CheckCollision\<close> is called as \<open>(0, 1)\<close> in the Earth's turn and as \<open>(1, 0)\<close> in the
  Moon's turn: twice for the one unordered pair, not once.
\<close>

theorem collision_calls_counterexample:
  "snd (tickT config_main ([earth, moon], [])) = [(0, 1), (1, 0)]
   \<and> length (filter (\<lambda>(a, b). {a, b} = {0, 1}) (snd (tickT config_main ([earth, moon], [])))) \<noteq> 1
   \<and> snd (tickT config32 ([earth32, moon32], [])) = [(0, 1), (1, 0)]
   \<and> length (filter (\<lambda>(a, b). {a, b} = {0, 1}) (snd (tickT config32 ([earth32, moon32], [])))) \<noteq> 1"
  by (simp add: tickT_eq peers_def doubleton_eq_iff)

text \<open>
  Claim C2, amended. In every tick \<^verbatim>\<open>CheckCollision\<close> is called exactly once for every
  ordered pair of different objects, hence exactly twice for every unordered pair, once in
  the turn of each of the two. In its own turn, the velocity of an object is negated once
  for every other object it overlaps, so twice when it overlaps two others. (The traced
  tick computes the same objects as \<open>tick\<close>.)
\<close>

theorem collisions_once_per_ordered_pair:
  fixes c :: "'a::{plus,minus,times,uminus,inverse,ord,one} config"
  assumes "i < length os" and "j < length os" and "i \<noteq> j"
  shows "fst (tickT c (os, [])) = tick c os
         \<and> count_list (snd (tickT c (os, []))) (i, j) = 1
         \<and> count_list (snd (tickT c (os, []))) (j, i) = 1
         \<and> length (filter (\<lambda>(a, b). {a, b} = {i, j}) (snd (tickT c (os, [])))) = 2
         \<and> collisionLoop c i os ! i
             = (negateVelocity
                  ^^ length (filter (\<lambda>k. i \<noteq> k \<and> overlaps c (os ! i) (os ! k)) [0..<length os]))
                 (os ! i)"
proof -
  let ?calls = "snd (tickT c (os, []))"
  have ij: "count_list ?calls (i, j) = 1"
    using assms by (simp add: tickT_eq count_calls)
  have ji: "count_list ?calls (j, i) = 1"
    using assms by (simp add: tickT_eq count_calls)
  have both: "length (filter (\<lambda>(a, b). {a, b} = {i, j}) ?calls) = 2"
    using ij ji count_unordered [OF assms(3), of ?calls] by simp
  have objs: "fst (tickT c (os, [])) = tick c os"
    by (simp add: tickT_eq)
  from objs ij ji both collisionLoop_self [OF assms(1), of c] show ?thesis
    by blast
qed

text \<open>
  Witness for C2: three objects in a row, the one at index 0 overlapping both others. The
  six calls of the tick are listed; the pair of the indices 0 and 1 is tested twice; and
  after its own collision loop the object at index 0 has its velocity \<open>[0, 1022]\<close> again,
  negated twice.
\<close>

theorem collisions_once_per_ordered_pair_witness:
  "0 < length trio \<and> 1 < length trio \<and> (0::nat) \<noteq> 1
   \<and> snd (tickT config_main (trio, [])) = [(0, 1), (0, 2), (1, 0), (1, 2), (2, 0), (2, 1)]
   \<and> length (filter (\<lambda>(a, b). {a, b} = {0, 1}) (snd (tickT config_main (trio, [])))) = 2
   \<and> length (filter (\<lambda>k. 0 \<noteq> k \<and> overlaps config_main (trio ! 0) (trio ! k)) [0..<length trio]) = 2
   \<and> velocity (trio ! 0) = [0, 1022]
   \<and> velocity (collisionLoop config_main 0 trio ! 0) = [0, 1022]"
proof -
  have l0: "0 < length trio" and l1: "1 < length trio"
    by (simp_all add: trio_def)
  have ne: "(0::nat) \<noteq> 1"
    by simp
  have calls: "snd (tickT config_main (trio, [])) = [(0, 1), (0, 2), (1, 0), (1, 2), (2, 0), (2, 1)]"
    by (simp add: tickT_eq peers_def trio_def upt_rec)
  have two: "length (filter (\<lambda>k. 0 \<noteq> k \<and> overlaps config_main (trio ! 0) (trio ! k))
                [0..<length trio]) = 2"
    by (simp add: trio_def upt_rec overlaps_def distanceSim_horizontal config_main_def earth_def moon_def)
  note T = collisions_once_per_ordered_pair [OF l0 l1 ne, of config_main]
  have pair: "length (filter (\<lambda>(a, b). {a, b} = {0, 1}) (snd (tickT config_main (trio, [])))) = 2"
    using T by blast
  have self: "collisionLoop config_main 0 trio ! 0
      = (negateVelocity
           ^^ length (filter (\<lambda>k. 0 \<noteq> k \<and> overlaps config_main (trio ! 0) (trio ! k))
                [0..<length trio]))
          (trio ! 0)"
    using T by blast
  have v0: "velocity (trio ! 0) = [0, 1022]"
    by (simp add: trio_def moon_def)
  have v: "velocity (collisionLoop config_main 0 trio ! 0) = [0, 1022]"
    unfolding self two by (simp add: trio_def negateVelocity_def moon_def numeral_2_eq_2)
  from l0 l1 ne calls pair two v0 v show ?thesis
    by blast
qed

subsection \<open>Lower bounds in binary32\<close>

text \<open>
  Rounding never rounds a magnitude of at least \<open>2^k\<close>, \<open>k \<ge> -149\<close>, to less than
  \<open>2^k\<close>: the exponent found is the least one that fits, and rounding to the nearest
  integer does not go below an integer that is below.
\<close>

lemma expo_range: "e0 \<le> expo n e0 fits \<and> expo n e0 fits \<le> e0 + int n"
proof (induction n arbitrary: e0)
  case 0
  show ?case by simp
next
  case (Suc n)
  from Suc [of "e0 + 1"] show ?case by auto
qed

lemma expo_least: "e0 < expo n e0 fits \<Longrightarrow> \<not> fits (expo n e0 fits - 1)"
proof (induction n arbitrary: e0)
  case 0
  then show ?case by simp
next
  case (Suc n)
  show ?case
  proof (cases "fits e0")
    case True
    with Suc.prems show ?thesis by simp
  next
    case False
    show ?thesis
    proof (cases "e0 + 1 < expo n (e0 + 1) fits")
      case True
      from Suc.IH [OF True] False show ?thesis by simp
    next
      case False
      with expo_range [of "e0 + 1" n fits] have "expo n (e0 + 1) fits = e0 + 1"
        by linarith
      with \<open>\<not> fits e0\<close> show ?thesis by simp
    qed
  qed
qed

lemma rne_ge: "of_int z \<le> q \<Longrightarrow> z \<le> rne q"
proof -
  assume "of_int z \<le> q"
  then have "z \<le> \<lfloor>q\<rfloor>"
    by (simp add: le_floor_iff)
  then show ?thesis
    by (simp add: rne_def Let_def)
qed

lemma round32_form: "round32 s a = Finite t m e \<Longrightarrow> t = s \<and> - 149 \<le> e"
  using expo_range [of "- 149" 254 "\<lambda>e. a < pow2 (e + 24)"]
  by (auto simp add: round32_def pack_def Let_def split: if_splits)

lemma round32_lower:
  assumes "pow2 k \<le> a" and "- 149 \<le> k"
  shows "magnitude_ge k (round32 s a)"
proof -
  define e where "e = expo 254 (- 149) (\<lambda>e. a < pow2 (e + 24))"
  define M where "M = rne (a / pow2 e)"
  have e_lo: "- 149 \<le> e"
    unfolding e_def using expo_range [of "- 149" 254] by simp
  have bound: "pow2 k \<le> of_int M * pow2 e \<and> 0 \<le> M"
  proof (cases "e \<le> k")
    case True
    have "pow2 k = pow2 (k - e) * pow2 e"
      by (simp add: pow2_add [symmetric])
    with assms(1) have "pow2 (k - e) \<le> a / pow2 e"
      by (simp add: pos_le_divide_eq pow2_pos)
    then have "of_int (2 ^ nat (k - e)) \<le> a / pow2 e"
      using True by (simp add: pow2_int)
    then have M_ge: "2 ^ nat (k - e) \<le> M"
      unfolding M_def by (rule rne_ge)
    then have "of_int (2 ^ nat (k - e)) * pow2 e \<le> of_int M * pow2 e"
      by (intro mult_right_mono) (simp_all add: pow2_pos less_imp_le del: of_int_power)
    moreover have "of_int (2 ^ nat (k - e)) * pow2 e = pow2 k"
      using True by (simp add: pow2_int [symmetric] pow2_add [symmetric] del: of_int_power)
    moreover have "0 \<le> M"
      using M_ge by (meson order_trans zero_le_numeral zero_le_power)
    ultimately show ?thesis by simp
  next
    case False
    then have "- 149 < e"
      using assms(2) by simp
    then have "\<not> a < pow2 (e - 1 + 24)"
      unfolding e_def by (rule expo_least)
    then have "pow2 (e + 23) \<le> a"
      by (simp add: algebra_simps)
    moreover have "pow2 (e + 23) = pow2 23 * pow2 e"
      by (simp add: pow2_add [symmetric] add.commute)
    ultimately have "pow2 23 \<le> a / pow2 e"
      by (simp add: pos_le_divide_eq pow2_pos)
    then have "of_int (2 ^ 23) \<le> a / pow2 e"
      using pow2_int [of 23] by simp
    then have M_ge: "2 ^ 23 \<le> M"
      unfolding M_def by (rule rne_ge)
    then have "of_int (2 ^ 23) * pow2 e \<le> of_int M * pow2 e"
      by (intro mult_right_mono) (simp_all add: pow2_pos less_imp_le del: of_int_power)
    moreover have "of_int (2 ^ 23) * pow2 e = pow2 (e + 23)"
      using pow2_add [of 23 e] pow2_int [of 23] by (simp add: add.commute)
    moreover have "pow2 k \<le> pow2 (e + 23)"
      using False by (intro pow2_mono) simp
    moreover have "0 \<le> M"
      using M_ge by simp
    ultimately show ?thesis by simp
  qed
  have r: "round32 s a = pack s M e"
    by (simp add: round32_def e_def M_def Let_def)
  show ?thesis
  proof (cases "M = 2 ^ 24")
    case True
    have "pow2 (e + 1) = 2 * pow2 e"
      using pow2_add [of 1 e] pow2_int [of 1] by (simp add: add.commute)
    with bound True show ?thesis
      unfolding r by (simp add: pack_def magnitude_ge_def Let_def)
  next
    case False
    with bound show ?thesis
      unfolding r by (simp add: pack_def magnitude_ge_def Let_def)
  qed
qed

lemma magnitude_ge_nonzero: "magnitude_ge k x \<Longrightarrow> \<not> is_zero x"
proof (cases x)
  case (Finite s m e)
  assume "magnitude_ge k x"
  with Finite have "pow2 k \<le> of_nat m * pow2 e"
    by (simp add: magnitude_ge_def)
  with pow2_pos [of k] have "0 < real m * pow2 e"
    by linarith
  then have "m \<noteq> 0"
    by (cases "m = 0") simp_all
  with Finite show ?thesis
    by (simp add: is_zero_def)
qed (simp_all add: is_zero_def)

lemma fadd_form: "fadd p q = Finite sg m e \<Longrightarrow> - 149 \<le> e"
  by (cases p; cases q) (auto simp add: Let_def split: if_splits dest: round32_form)

lemma finite_value_lower:
  assumes "- 149 \<le> e" and "m \<noteq> 0"
  shows "pow2 (- 149) \<le> of_nat m * pow2 e"
proof -
  have "pow2 (- 149) \<le> pow2 e"
    using assms(1) by (rule pow2_mono)
  also have "\<dots> = 1 * pow2 e"
    by simp
  also have "\<dots> \<le> of_nat m * pow2 e"
    using assms(2) by (intro mult_right_mono) (simp_all add: pow2_pos less_imp_le)
  finally show ?thesis .
qed

lemma fsqrt_lower:
  assumes "- 149 \<le> e" and "m \<noteq> 0"
  shows "magnitude_ge (- 75) (fsqrt (Finite sg m e))"
proof (cases sg)
  case True
  with assms(2) show ?thesis
    by (simp add: magnitude_ge_def)
next
  case False
  have "(pow2 (- 75))\<^sup>2 = pow2 (- 150)"
    using pow2_add [of "- 75" "- 75"] by (simp add: power2_eq_square)
  also have "\<dots> \<le> pow2 (- 149)"
    by (rule pow2_mono) simp
  also have "\<dots> \<le> of_nat m * pow2 e"
    using assms by (rule finite_value_lower)
  finally have "pow2 (- 75) \<le> sqrt (of_nat m * pow2 e)"
    by (rule real_le_rsqrt)
  then have "magnitude_ge (- 75) (round32 False (sqrt (of_nat m * pow2 e)))"
    by (rule round32_lower) simp
  with False assms(2) show ?thesis
    by (simp add: valof_def)
qed

lemma fdiv_space_scale_lower:
  assumes "magnitude_ge (- 75) x"
  shows "magnitude_ge (- 46) (fdiv x (Finite False 9007199 (- 53)))"
proof (cases x)
  case (Finite s m e)
  with assms have lo: "pow2 (- 75) \<le> of_nat m * pow2 e"
    by (simp add: magnitude_ge_def)
  have scale: "valof False 9007199 (- 53) \<le> pow2 (- 29)" "0 < valof False 9007199 (- 53)"
    by (simp_all add: valof_def pow2_def)
  have abs: "\<bar>valof s m e\<bar> = of_nat m * pow2 e"
    using pow2_pos [of e] by (simp add: valof_def abs_mult)
  have "pow2 (- 46) * valof False 9007199 (- 53) \<le> pow2 (- 46) * pow2 (- 29)"
    using scale(1) by (intro mult_left_mono) (simp_all add: pow2_pos less_imp_le)
  also have "\<dots> = pow2 (- 75)"
    by (simp add: pow2_add [symmetric])
  also have "\<dots> \<le> \<bar>valof s m e\<bar>"
    using lo abs by simp
  finally have "pow2 (- 46) \<le> \<bar>valof s m e\<bar> / valof False 9007199 (- 53)"
    using scale(2) by (simp add: pos_le_divide_eq)
  then have "pow2 (- 46) \<le> \<bar>valof s m e / valof False 9007199 (- 53)\<bar>"
    using scale(2) by (simp add: abs_divide)
  then have "magnitude_ge (- 46) (round32 (s \<noteq> False) \<bar>valof s m e / valof False 9007199 (- 53)\<bar>)"
    by (rule round32_lower) simp
  with Finite show ?thesis
    by simp
qed (simp_all add: magnitude_ge_def)

lemma fmul_self_lower:
  assumes "magnitude_ge (- 46) x"
  shows "magnitude_ge (- 92) (fmul x x)"
proof (cases x)
  case (Finite s m e)
  with assms have lo: "pow2 (- 46) \<le> of_nat m * pow2 e"
    by (simp add: magnitude_ge_def)
  have abs: "\<bar>valof s m e\<bar> = of_nat m * pow2 e"
    using pow2_pos [of e] by (simp add: valof_def abs_mult)
  have "pow2 (- 92) = pow2 (- 46) * pow2 (- 46)"
    by (simp add: pow2_add [symmetric])
  also have "\<dots> \<le> \<bar>valof s m e\<bar> * \<bar>valof s m e\<bar>"
    using lo abs pow2_pos [of "- 46"] by (intro mult_mono) simp_all
  finally have "pow2 (- 92) \<le> \<bar>valof s m e * valof s m e\<bar>"
    by (simp add: abs_mult)
  then have "magnitude_ge (- 92) (round32 (s \<noteq> s) \<bar>valof s m e * valof s m e\<bar>)"
    by (rule round32_lower) simp
  with Finite show ?thesis
    by simp
qed (simp_all add: magnitude_ge_def)

lemma round32_not_NaN: "round32 s a \<noteq> NaN"
  by (simp add: round32_def pack_def Let_def)

lemma round32_Infinity: "round32 s a = Infinity t \<Longrightarrow> t = s"
  by (simp add: round32_def pack_def Let_def split: if_splits)

lemma positive_form:
  assumes "f32 0 < r" and "valid32 r"
  shows "r = Infinity False \<or> (\<exists>m e. r = Finite False m e \<and> m \<noteq> 0 \<and> - 149 \<le> e)"
proof (cases r)
  case (Finite t n f)
  with assms(1) have pos: "0 < valof t n f"
    by (simp add: less_float32_def zero32 valof_def)
  have "\<not> t"
  proof
    assume t
    then have "valof t n f \<le> 0"
      using pow2_pos [of f] by (simp add: valof_def less_imp_le)
    with pos show False by simp
  qed
  moreover have "n \<noteq> 0"
  proof
    assume "n = 0"
    then have "valof t n f = 0"
      by (simp add: valof_def)
    with pos show False by simp
  qed
  moreover from assms(2) Finite have "- 149 \<le> f"
    by (simp add: valid32_def)
  ultimately show ?thesis
    using Finite by simp
next
  case (Infinity t)
  with assms(1) show ?thesis
    by (simp add: less_float32_def zero32)
next
  case NaN
  with assms(1) show ?thesis
    by (simp add: less_float32_def zero32)
qed

lemma zero_below_positive_sum:
  assumes "f32 0 < rA" and "valid32 rA" and "f32 0 < rB" and "valid32 rB"
  shows "Finite sg 0 (- 149) < rA + rB"
proof -
  from positive_form [OF assms(1,2)] positive_form [OF assms(3,4)]
  consider (inf) "rA = Infinity False \<or> rB = Infinity False"
    | (fin) m e n f where "rA = Finite False m e" "m \<noteq> 0" "- 149 \<le> e"
        "rB = Finite False n f" "n \<noteq> 0" "- 149 \<le> f"
    by blast
  then show ?thesis
  proof cases
    case inf
    with positive_form [OF assms(1,2)] positive_form [OF assms(3,4)]
    have "rA + rB = Infinity False"
      by (auto simp add: plus_float32_def)
    then show ?thesis
      by (simp add: less_float32_def)
  next
    case fin
    let ?v = "valof False m e + valof False n f"
    have a: "pow2 (- 149) \<le> valof False m e"
      using finite_value_lower [OF fin(3,2)] by (simp add: valof_def)
    have b: "0 < valof False n f"
      using finite_value_lower [OF fin(6,5)] pow2_pos [of "- 149"] by (simp add: valof_def)
    from a b have v: "pow2 (- 149) \<le> ?v" "0 < ?v"
      using pow2_pos [of "- 149"] by linarith+
    then have sum: "rA + rB = round32 False ?v"
      using fin by (simp add: plus_float32_def Let_def)
    have "magnitude_ge (- 149) (round32 False ?v)"
      using v(1) by (rule round32_lower) simp
    then show ?thesis
      unfolding sum
      using round32_not_NaN [of False ?v] round32_Infinity [of False ?v]
        round32_form [of False ?v] pow2_pos [of "- 149"]
      by (cases "round32 False ?v")
         (auto simp add: less_float32_def magnitude_ge_def valof_def)
  qed
qed

lemma zero_distance_real:
  "Finite sg 0 e / SPACE_SCALE config32 = Finite sg 0 (- 149)"
  by (simp add: divide_float32_def space_scale32 valof_def round32_zero)

subsection \<open>Upper bounds in binary32\<close>

text \<open>
  Rounding never rounds a magnitude of at most 1 to more than 1: the exponent found is at
  most \<open>-23\<close>, so that 1 is a multiple of the unit, and rounding to the nearest integer does
  not go above an integer that is above. A sum whose exact value is at most 1 is therefore
  not above \<open>1.0f\<close>, and one whose exact value is at least \<open>-1\<close> is not below \<open>-1.0f\<close>.
\<close>

lemma expo_le: "fits e1 \<Longrightarrow> e0 \<le> e1 \<Longrightarrow> expo n e0 fits \<le> e1"
proof (induction n arbitrary: e0)
  case 0
  then show ?case by simp
next
  case (Suc n)
  show ?case
  proof (cases "fits e0")
    case True
    with Suc.prems show ?thesis by simp
  next
    case False
    with Suc.prems have "e0 + 1 \<le> e1"
      by (cases "e0 = e1") auto
    from Suc.IH [OF Suc.prems(1) this] False show ?thesis by simp
  qed
qed

lemma rne_le: "q \<le> of_int z \<Longrightarrow> rne q \<le> z"
proof -
  assume q: "q \<le> of_int z"
  then have f: "\<lfloor>q\<rfloor> \<le> z"
    by (simp add: floor_le_iff)
  show ?thesis
  proof (cases "\<lfloor>q\<rfloor> = z")
    case True
    with q have "q = of_int \<lfloor>q\<rfloor>"
      using of_int_floor_le [of q] by simp
    then have "q - of_int \<lfloor>q\<rfloor> = 0"
      by simp
    with True show ?thesis
      by (simp add: rne_def Let_def)
  next
    case False
    with f have "\<lfloor>q\<rfloor> + 1 \<le> z"
      by simp
    then show ?thesis
      by (simp add: rne_def Let_def)
  qed
qed

lemma round32_upper:
  assumes "0 \<le> a" and "a \<le> 1"
  shows "\<exists>m e. round32 s a = Finite s m e \<and> of_nat m * pow2 e \<le> 1"
proof -
  define e where "e = expo 254 (- 149) (\<lambda>e. a < pow2 (e + 24))"
  define M where "M = rne (a / pow2 e)"
  have "a < pow2 (- 23 + 24)"
    using assms(2) by (simp add: pow2_def)
  then have e_hi: "e \<le> - 23"
    unfolding e_def by (rule expo_le) simp
  have "a / pow2 e \<le> 1 / pow2 e"
    using assms(2) pow2_pos [of e] by (simp add: divide_right_mono)
  also have "1 / pow2 e = pow2 (- e)"
    using pow2_add [of e "- e"] pow2_pos [of e] by (simp add: pow2_def field_simps)
  also have "\<dots> = of_int (2 ^ nat (- e))"
    using e_hi by (intro pow2_int) simp
  finally have M_hi: "M \<le> 2 ^ nat (- e)"
    unfolding M_def by (rule rne_le)
  have "of_int 0 \<le> a / pow2 e"
    using assms(1) pow2_pos [of e] by simp
  then have M_lo: "0 \<le> M"
    unfolding M_def by (rule rne_ge)
  have "of_int M * pow2 e \<le> of_int (2 ^ nat (- e)) * pow2 e"
    using M_hi by (intro mult_right_mono) (simp_all add: pow2_pos less_imp_le del: of_int_power)
  also have "of_int (2 ^ nat (- e)) * pow2 e = pow2 (- e) * pow2 e"
    using e_hi pow2_int [of "- e"] by simp
  also have "\<dots> = 1"
    using pow2_add [of "- e" e] by (simp add: pow2_def)
  finally have val: "of_int M * pow2 e \<le> 1" .
  have r: "round32 s a = pack s M e"
    by (simp add: round32_def e_def M_def Let_def)
  show ?thesis
  proof (cases "M = 2 ^ 24")
    case True
    have "pow2 (e + 1) = 2 * pow2 e"
      using pow2_add [of 1 e] pow2_int [of 1] by (simp add: add.commute)
    with val True e_hi show ?thesis
      unfolding r by (simp add: pack_def Let_def)
  next
    case False
    with val M_lo e_hi show ?thesis
      unfolding r by (simp add: pack_def Let_def)
  qed
qed

lemma round32_sign: "round32 s a = Finite t m e \<or> round32 s a = Infinity t \<Longrightarrow> t = s"
  by (auto simp add: round32_def pack_def Let_def split: if_splits)

lemma fadd_at_most_one:
  assumes "valof s m e + valof t n f \<le> 1"
  shows "\<not> fless (Finite False (2 ^ 23) (- 23)) (fadd (Finite s m e) (Finite t n f))"
proof -
  let ?v = "valof s m e + valof t n f"
  have one: "valof False (2 ^ 23) (- 23) = 1"
    by (simp add: valof_def pow2_def)
  consider "?v = 0" | "?v < 0" | "0 < ?v"
    by linarith
  then show ?thesis
  proof cases
    case 1
    then show ?thesis
      by (simp add: valof_def pow2_def)
  next
    case 2
    show ?thesis
    proof (cases "round32 True \<bar>?v\<bar>")
      case (Finite t' m' e')
      with round32_sign [of True "\<bar>?v\<bar>" t' m' e'] have "t' = True"
        by simp
      moreover have "valof True m' e' \<le> 0"
        using pow2_pos [of e'] by (simp add: valof_def)
      ultimately show ?thesis
        using 2 Finite one by (simp add: Let_def)
    next
      case (Infinity t')
      with round32_sign [of True "\<bar>?v\<bar>" t'] have "t' = True"
        by simp
      with 2 Infinity show ?thesis
        by (simp add: Let_def)
    next
      case NaN
      with 2 show ?thesis
        by (simp add: Let_def)
    qed
  next
    case 3
    with assms have "0 \<le> \<bar>?v\<bar>" "\<bar>?v\<bar> \<le> 1"
      by simp_all
    from round32_upper [OF this, of False] obtain m' e'
      where "round32 False \<bar>?v\<bar> = Finite False m' e'" "of_nat m' * pow2 e' \<le> 1"
      by blast
    with 3 one show ?thesis
      by (simp add: Let_def valof_def)
  qed
qed

lemma fadd_at_least_minus_one:
  assumes "- 1 \<le> valof s m e + valof t n f"
  shows "\<not> fless (fadd (Finite s m e) (Finite t n f)) (Finite True (2 ^ 23) (- 23))"
proof -
  let ?v = "valof s m e + valof t n f"
  have one: "valof True (2 ^ 23) (- 23) = - 1"
    by (simp add: valof_def pow2_def)
  consider "?v = 0" | "0 < ?v" | "?v < 0"
    by linarith
  then show ?thesis
  proof cases
    case 1
    then show ?thesis
      by (simp add: valof_def pow2_def)
  next
    case 2
    show ?thesis
    proof (cases "round32 False \<bar>?v\<bar>")
      case (Finite t' m' e')
      with round32_sign [of False "\<bar>?v\<bar>" t' m' e'] have "t' = False"
        by simp
      moreover have "0 \<le> valof False m' e'"
        using pow2_pos [of e'] by (simp add: valof_def)
      ultimately show ?thesis
        using 2 Finite one by (simp add: Let_def)
    next
      case (Infinity t')
      with round32_sign [of False "\<bar>?v\<bar>" t'] have "t' = False"
        by simp
      with 2 Infinity show ?thesis
        by (simp add: Let_def)
    next
      case NaN
      with 2 show ?thesis
        by (simp add: Let_def)
    qed
  next
    case 3
    with assms have "0 \<le> \<bar>?v\<bar>" "\<bar>?v\<bar> \<le> 1"
      by simp_all
    from round32_upper [OF this, of True] obtain m' e'
      where "round32 True \<bar>?v\<bar> = Finite True m' e'" "of_nat m' * pow2 e' \<le> 1"
      by blast
    with 3 one show ?thesis
      by (simp add: Let_def valof_def)
  qed
qed

subsection \<open>The screen boundaries\<close>

text \<open>
  What lines 166-183 do on each axis, for every interpretation of the operators: the test
  of the lower edge comes first, the test of the upper edge is its \<^verbatim>\<open>else if\<close>.
\<close>

lemma boundary_axes:
  fixes obj :: "'a::{plus,minus,times,uminus,inverse,ord,one} Object"
  assumes "wf_Object obj"
  shows "(position (boundary obj) ! 0, velocity (boundary obj) ! 0) =
           (if position obj ! 0 - radius obj < - 1 then (- 1 + radius obj, - (velocity obj ! 0))
            else if position obj ! 0 + radius obj > 1 then (1 - radius obj, - (velocity obj ! 0))
            else (position obj ! 0, velocity obj ! 0))"
    and "(position (boundary obj) ! 1, velocity (boundary obj) ! 1) =
           (if position obj ! 1 - radius obj < - 1 then (- 1 + radius obj, - (velocity obj ! 1))
            else if position obj ! 1 + radius obj > 1 then (1 - radius obj, - (velocity obj ! 1))
            else (position obj ! 1, velocity obj ! 1))"
    and "radius (boundary obj) = radius obj"
    and "mass (boundary obj) = mass obj"
    and "realRadius (boundary obj) = realRadius obj"
    and "wf_Object (boundary obj)"
  using assms by (simp_all add: boundary_def wf_Object_def Let_def)

text \<open>
  An object that fits the screen, of display radius at most 1, cannot have both edges
  outside on the same axis: the two tests of an axis never hold together, in binary32 as in
  exact arithmetic. In binary32 the computed edges \<open>p - r\<close> and \<open>p + r\<close> are rounded, and
  the bounds above carry the argument over; a position or radius that is infinite or not a
  number lets at most one test hold as well.
\<close>

lemma edges_exclusive:
  fixes p r :: float32
  assumes "r \<le> 1"
  shows "\<not> (p - r < - 1 \<and> p + r > 1)"
proof (cases p; cases r)
  fix s m e t n f
  assume p: "p = Finite s m e" and r: "r = Finite t n f"
  from assms r have r1: "valof t n f \<le> 1"
    by (simp add: less_eq_float32_def one_float32_def valof_def pow2_def)
  have neg: "valof (\<not> t) n f = - valof t n f"
    by (simp add: valof_def)
  show ?thesis
  proof
    assume both: "p - r < - 1 \<and> p + r > 1"
    from both p r
    have "fless (fadd (Finite s m e) (Finite (\<not> t) n f)) (Finite True (2 ^ 23) (- 23))"
      by (simp add: less_float32_def minus_float32_def uminus_float32_def one_float32_def)
    with fadd_at_least_minus_one [of s m e "\<not> t" n f]
    have lo: "valof s m e + valof (\<not> t) n f < - 1"
      by fastforce
    from both p r
    have "fless (Finite False (2 ^ 23) (- 23)) (fadd (Finite s m e) (Finite t n f))"
      by (simp add: less_float32_def plus_float32_def one_float32_def)
    with fadd_at_most_one [of s m e t n f]
    have hi: "1 < valof s m e + valof t n f"
      by fastforce
    from lo hi neg r1 show False
      by linarith
  qed
qed (use assms in \<open>auto simp add: less_float32_def less_eq_float32_def minus_float32_def
       plus_float32_def uminus_float32_def one_float32_def\<close>)

text \<open>
  Claim C6, in binary32, for every object of display radius at most 1. On each axis: if
  the upper edge (position plus display radius) is beyond \<open>+1\<close>, the position becomes
  \<open>1 - radius\<close> and the velocity component is negated; if the lower edge (position minus
  display radius) is beyond \<open>-1\<close>, the position becomes \<open>-1 + radius\<close> and the velocity
  component is negated; if neither edge is outside, position and velocity component are
  kept. What happens on one axis depends on nothing of the other axis, so a clamp leaves
  the other axis alone. Radius, mass and physical radius are kept.
\<close>

theorem boundary_reflects_at_each_edge:
  fixes obj :: "float32 Object"
  assumes "wf_Object obj" and "radius obj \<le> 1"
  shows "(position obj ! 0 + radius obj > 1 \<longrightarrow>
            position (boundary obj) ! 0 = 1 - radius obj
            \<and> velocity (boundary obj) ! 0 = - (velocity obj ! 0))
         \<and> (position obj ! 0 - radius obj < - 1 \<longrightarrow>
            position (boundary obj) ! 0 = - 1 + radius obj
            \<and> velocity (boundary obj) ! 0 = - (velocity obj ! 0))
         \<and> (\<not> position obj ! 0 + radius obj > 1 \<and> \<not> position obj ! 0 - radius obj < - 1 \<longrightarrow>
            position (boundary obj) ! 0 = position obj ! 0
            \<and> velocity (boundary obj) ! 0 = velocity obj ! 0)
         \<and> (position obj ! 1 + radius obj > 1 \<longrightarrow>
            position (boundary obj) ! 1 = 1 - radius obj
            \<and> velocity (boundary obj) ! 1 = - (velocity obj ! 1))
         \<and> (position obj ! 1 - radius obj < - 1 \<longrightarrow>
            position (boundary obj) ! 1 = - 1 + radius obj
            \<and> velocity (boundary obj) ! 1 = - (velocity obj ! 1))
         \<and> (\<not> position obj ! 1 + radius obj > 1 \<and> \<not> position obj ! 1 - radius obj < - 1 \<longrightarrow>
            position (boundary obj) ! 1 = position obj ! 1
            \<and> velocity (boundary obj) ! 1 = velocity obj ! 1)
         \<and> radius (boundary obj) = radius obj
         \<and> mass (boundary obj) = mass obj
         \<and> realRadius (boundary obj) = realRadius obj
         \<and> wf_Object (boundary obj)"
proof -
  note ax = boundary_axes [OF assms(1)]
  from edges_exclusive [OF assms(2), of "position obj ! 0"] ax(1)
  have axis0: "(position obj ! 0 + radius obj > 1 \<longrightarrow>
            position (boundary obj) ! 0 = 1 - radius obj
            \<and> velocity (boundary obj) ! 0 = - (velocity obj ! 0))
         \<and> (position obj ! 0 - radius obj < - 1 \<longrightarrow>
            position (boundary obj) ! 0 = - 1 + radius obj
            \<and> velocity (boundary obj) ! 0 = - (velocity obj ! 0))
         \<and> (\<not> position obj ! 0 + radius obj > 1 \<and> \<not> position obj ! 0 - radius obj < - 1 \<longrightarrow>
            position (boundary obj) ! 0 = position obj ! 0
            \<and> velocity (boundary obj) ! 0 = velocity obj ! 0)"
    by (auto split: if_splits)
  from edges_exclusive [OF assms(2), of "position obj ! 1"] ax(2)
  have axis1: "(position obj ! 1 + radius obj > 1 \<longrightarrow>
            position (boundary obj) ! 1 = 1 - radius obj
            \<and> velocity (boundary obj) ! 1 = - (velocity obj ! 1))
         \<and> (position obj ! 1 - radius obj < - 1 \<longrightarrow>
            position (boundary obj) ! 1 = - 1 + radius obj
            \<and> velocity (boundary obj) ! 1 = - (velocity obj ! 1))
         \<and> (\<not> position obj ! 1 + radius obj > 1 \<and> \<not> position obj ! 1 - radius obj < - 1 \<longrightarrow>
            position (boundary obj) ! 1 = position obj ! 1
            \<and> velocity (boundary obj) ! 1 = velocity obj ! 1)"
    by (auto split: if_splits)
  from axis0 axis1 ax(3-6) show ?thesis
    by blast
qed

lemma cornered32_values:
  "cornered32 =
     \<lparr>position = [Finite False 16441672 (- 24), Finite True 16273900 (- 24)],
      velocity = [Finite False 12582912 (- 22), Finite True 8388608 (- 21)],
      radius = Finite False 13421773 (- 28), mass = Finite False 8388608 (- 23),
      realRadius = Finite False 8388608 (- 23)\<rparr>"
  by (simp add: cornered32_def float32_eval)

text \<open>
  Witness for C6: both axes trigger in the same call. An object of radius \<open>0.05f\<close> at
  \<open>[0.98f, -0.97f]\<close> with velocity \<open>[3, -4]\<close> has its upper edge outside on the axis 0 and
  its lower edge outside on the axis 1; it is put at \<open>[1 - 0.05f, -1 + 0.05f]\<close>, which is
  \<open>15938355 * 2^-24\<close> and its negative, with velocity \<open>[-3, 4]\<close>.
\<close>

theorem boundary_reflects_at_each_edge_witness:
  "wf_Object cornered32 \<and> radius cornered32 \<le> 1
   \<and> position cornered32 ! 0 + radius cornered32 > 1
   \<and> position cornered32 ! 1 - radius cornered32 < - 1
   \<and> position (boundary cornered32) ! 0 = Finite False 15938355 (- 24)
   \<and> velocity (boundary cornered32) ! 0 = Finite True 12582912 (- 22)
   \<and> position (boundary cornered32) ! 1 = Finite True 15938355 (- 24)
   \<and> velocity (boundary cornered32) ! 1 = Finite False 8388608 (- 21)"
proof -
  have wf: "wf_Object cornered32"
    by (simp add: cornered32_values wf_Object_def)
  have le: "radius cornered32 \<le> 1"
    by (simp add: cornered32_values less_eq_float32_def one_float32_def valof_def pow2_def)
  have up: "position cornered32 ! 0 + radius cornered32 > 1"
    unfolding cornered32_values by (simp add: float32_eval)
  have low: "position cornered32 ! 1 - radius cornered32 < - 1"
    unfolding cornered32_values by (simp add: float32_eval)
  note T = boundary_reflects_at_each_edge [OF wf le]
  from T up have "position (boundary cornered32) ! 0 = 1 - radius cornered32"
    by blast
  then have p0: "position (boundary cornered32) ! 0 = Finite False 15938355 (- 24)"
    unfolding cornered32_values by (simp add: float32_eval)
  from T up have "velocity (boundary cornered32) ! 0 = - (velocity cornered32 ! 0)"
    by blast
  then have v0: "velocity (boundary cornered32) ! 0 = Finite True 12582912 (- 22)"
    unfolding cornered32_values by (simp add: float32_eval)
  from T low have "position (boundary cornered32) ! 1 = - 1 + radius cornered32"
    by blast
  then have p1: "position (boundary cornered32) ! 1 = Finite True 15938355 (- 24)"
    unfolding cornered32_values by (simp add: float32_eval)
  from T low have "velocity (boundary cornered32) ! 1 = - (velocity cornered32 ! 1)"
    by blast
  then have v1: "velocity (boundary cornered32) ! 1 = Finite False 8388608 (- 21)"
    unfolding cornered32_values by (simp add: float32_eval)
  from wf le up low p0 v0 p1 v1 show ?thesis
    by blast
qed

text \<open>The same in exact arithmetic.\<close>

lemma boundary_reflects_at_each_edge_exact:
  fixes obj :: "real Object"
  assumes "wf_Object obj" and "radius obj \<le> 1"
  shows "(position obj ! 0 + radius obj > 1 \<longrightarrow>
            position (boundary obj) ! 0 = 1 - radius obj
            \<and> velocity (boundary obj) ! 0 = - (velocity obj ! 0))
         \<and> (position obj ! 0 - radius obj < - 1 \<longrightarrow>
            position (boundary obj) ! 0 = - 1 + radius obj
            \<and> velocity (boundary obj) ! 0 = - (velocity obj ! 0))
         \<and> (position obj ! 1 + radius obj > 1 \<longrightarrow>
            position (boundary obj) ! 1 = 1 - radius obj
            \<and> velocity (boundary obj) ! 1 = - (velocity obj ! 1))
         \<and> (position obj ! 1 - radius obj < - 1 \<longrightarrow>
            position (boundary obj) ! 1 = - 1 + radius obj
            \<and> velocity (boundary obj) ! 1 = - (velocity obj ! 1))"
  using boundary_axes(1,2) [OF assms(1)] assms(2)
  by (auto split: if_splits)

text \<open>
  The bound on the radius is needed. An object wider than the screen, of display radius 2
  at the origin, has both edges outside on each axis, where the two clauses of the claim
  ask for two different positions; the program takes the lower edge and puts it at
  \<open>-1 + 2\<close>, in exact arithmetic and in binary32 alike.
\<close>

lemma boundary_wider_than_screen:
  "position oversized ! 0 - radius oversized < - 1
   \<and> position oversized ! 0 + radius oversized > 1
   \<and> position (boundary oversized) ! 0 = - 1 + radius oversized
   \<and> position oversized32 ! 0 - radius oversized32 < - 1
   \<and> position oversized32 ! 0 + radius oversized32 > 1
   \<and> position (boundary oversized32) ! 0 = - 1 + radius oversized32"
proof -
  have exact: "position oversized ! 0 - radius oversized < - 1
      \<and> position oversized ! 0 + radius oversized > 1
      \<and> position (boundary oversized) ! 0 = - 1 + radius oversized"
    by (simp add: oversized_def boundary_def)
  have binary32: "position oversized32 ! 0 - radius oversized32 < - 1
      \<and> position oversized32 ! 0 + radius oversized32 > 1
      \<and> position (boundary oversized32) ! 0 = - 1 + radius oversized32"
    by (simp add: oversized32_def boundary_def float32_eval)
  from exact binary32 show ?thesis
    by blast
qed

subsection \<open>No division by zero in the force computation\<close>

lemma divisors_nonzero32:
  assumes "f32 0 < realRadius obj" and "valid32 (realRadius obj)"
    and "f32 0 < realRadius obj2" and "valid32 (realRadius obj2)"
  shows "list_all (\<lambda>d. \<not> is_zero d) (forceDivisors config32 obj obj2)"
proof (cases "distanceReal config32 obj obj2 < realRadius obj + realRadius obj2")
  case True
  then show ?thesis
    by (simp add: forceDivisors_def space_scale32 is_zero_def)
next
  case False
  let ?dx = "position obj2 ! 0 - position obj ! 0"
  let ?dy = "position obj2 ! 1 - position obj ! 1"
  let ?S = "?dx * ?dx + ?dy * ?dy"
  have ds: "distanceSim config32 obj obj2 = fsqrt ?S"
    by (simp add: distanceSim_def config32_def Let_def)
  have lower: "magnitude_ge (- 75) (fsqrt ?S)"
  proof (cases ?S)
    case (Finite sg m e)
    then have e: "- 149 \<le> e"
      by (simp add: plus_float32_def fadd_form)
    show ?thesis
    proof (cases "m = 0")
      case True
      with Finite have "distanceSim config32 obj obj2 = Finite sg 0 (- 149)"
        by (simp add: ds)
      then have "distanceReal config32 obj obj2 = Finite sg 0 (- 149)"
        by (simp add: distanceReal_def zero_distance_real)
      with zero_below_positive_sum [OF assms] False show ?thesis
        by simp
    next
      case False
      show ?thesis
        unfolding Finite using e False by (rule fsqrt_lower)
    qed
  next
    case (Infinity t)
    then show ?thesis
      by (simp add: magnitude_ge_def)
  next
    case NaN
    then show ?thesis
      by (simp add: magnitude_ge_def)
  qed
  then have d1: "\<not> is_zero (distanceSim config32 obj obj2)"
    unfolding ds by (rule magnitude_ge_nonzero)
  from lower have "magnitude_ge (- 46) (distanceReal config32 obj obj2)"
    unfolding distanceReal_def ds space_scale32 divide_float32_def
    by (rule fdiv_space_scale_lower)
  then have "magnitude_ge (- 92) (distanceReal config32 obj obj2 * distanceReal config32 obj obj2)"
    unfolding times_float32_def by (rule fmul_self_lower)
  then have d2: "\<not> is_zero (distanceReal config32 obj obj2 * distanceReal config32 obj obj2)"
    by (rule magnitude_ge_nonzero)
  from False d1 d2 show ?thesis
    by (simp add: forceDivisors_def space_scale32 is_zero_def)
qed

lemma fsub_self: "Finite s m e - Finite s m e = Finite False 0 (- 149)"
  by (simp add: minus_float32_def valof_def)

lemma fmul_zero_zero: "Finite False 0 (- 149) * Finite False 0 (- 149) = Finite False 0 (- 149)"
  by (simp add: times_float32_def valof_def round32_zero)

lemma fadd_zero_zero: "Finite False 0 (- 149) + Finite False 0 (- 149) = Finite False 0 (- 149)"
  by (simp add: plus_float32_def valof_def)

lemma distanceSim_coincide:
  "distanceSim config32 (obj\<lparr>position := [Finite s0 m0 e0, Finite s1 m1 e1]\<rparr>)
     (obj2\<lparr>position := [Finite s0 m0 e0, Finite s1 m1 e1]\<rparr>) = Finite False 0 (- 149)"
  by (simp add: distanceSim_def config32_def fsub_self fmul_zero_zero fadd_zero_zero)

text \<open>
  Claim C10, in binary32 and with the constants of the program. For two objects of strictly
  positive physical radii, at any positions, none of the divisors of lines 138-149 is a
  zero. And if the two positions coincide (at finite coordinates), the distance and the
  real distance are zero, the test of line 141 holds, and the pass ends before the
  divisions by the distance and by the squared real distance: the space scale is the only
  divisor.
\<close>

theorem force_divisors_nonzero_binary32:
  assumes "f32 0 < realRadius obj" and "valid32 (realRadius obj)"
    and "f32 0 < realRadius obj2" and "valid32 (realRadius obj2)"
  shows "list_all (\<lambda>d. \<not> is_zero d) (forceDivisors config32 obj obj2)
         \<and> distanceSim config32 (obj\<lparr>position := [Finite s0 m0 e0, Finite s1 m1 e1]\<rparr>)
              (obj2\<lparr>position := [Finite s0 m0 e0, Finite s1 m1 e1]\<rparr>) = f32 0
         \<and> distanceReal config32 (obj\<lparr>position := [Finite s0 m0 e0, Finite s1 m1 e1]\<rparr>)
              (obj2\<lparr>position := [Finite s0 m0 e0, Finite s1 m1 e1]\<rparr>) = f32 0
         \<and> forceDivisors config32 (obj\<lparr>position := [Finite s0 m0 e0, Finite s1 m1 e1]\<rparr>)
              (obj2\<lparr>position := [Finite s0 m0 e0, Finite s1 m1 e1]\<rparr>) = [SPACE_SCALE config32]
         \<and> gravityStep config32 (obj2\<lparr>position := [Finite s0 m0 e0, Finite s1 m1 e1]\<rparr>)
              (obj\<lparr>position := [Finite s0 m0 e0, Finite s1 m1 e1]\<rparr>)
             = obj\<lparr>position := [Finite s0 m0 e0, Finite s1 m1 e1]\<rparr>"
proof -
  let ?a = "obj\<lparr>position := [Finite s0 m0 e0, Finite s1 m1 e1]\<rparr>"
  let ?b = "obj2\<lparr>position := [Finite s0 m0 e0, Finite s1 m1 e1]\<rparr>"
  have ds: "distanceSim config32 ?a ?b = f32 0"
    by (simp add: distanceSim_coincide zero32)
  have dr: "distanceReal config32 ?a ?b = f32 0"
    by (simp add: distanceReal_def distanceSim_coincide zero_distance_real zero32)
  have skip: "distanceReal config32 ?a ?b < realRadius ?a + realRadius ?b"
    unfolding dr zero32 using zero_below_positive_sum [OF assms] by simp
  then have fd: "forceDivisors config32 ?a ?b = [SPACE_SCALE config32]"
    by (simp add: forceDivisors_def)
  from skip have gs: "gravityStep config32 ?b ?a = ?a"
    by (simp add: gravityStep_def)
  from divisors_nonzero32 [OF assms] ds dr fd gs show ?thesis
    by blast
qed

text \<open>
  Witness for C10: the objects of masses 1000 and 7, of radius 0.25 each. At their places
  the pass divides by the space scale, twice by the distance \<open>2^-30\<close> and by the square
  of the real distance; with both at the place of the first, by the space scale only.
\<close>

theorem force_divisors_nonzero_binary32_witness:
  "f32 0 < realRadius heavy32 \<and> valid32 (realRadius heavy32)
   \<and> f32 0 < realRadius light32 \<and> valid32 (realRadius light32)
   \<and> forceDivisors config32 heavy32 light32
       = [Finite False 9007199 (- 53), Finite False 8388608 (- 53), Finite False 8388608 (- 53),
          Finite False 14551915 (- 24)]
   \<and> list_all (\<lambda>d. \<not> is_zero d) (forceDivisors config32 heavy32 light32)
   \<and> forceDivisors config32 heavy32 (light32\<lparr>position := position heavy32\<rparr>)
       = [Finite False 9007199 (- 53)]"
proof -
  have h1: "f32 0 < realRadius heavy32" and h2: "valid32 (realRadius heavy32)"
    by (simp_all add: heavy32_def valid32_def float32_eval)
  have h3: "f32 0 < realRadius light32" and h4: "valid32 (realRadius light32)"
    by (simp_all add: light32_def valid32_def float32_eval)
  note T = force_divisors_nonzero_binary32 [OF h1 h2 h3 h4]
  have far: "\<not> distanceReal config32 heavy32 light32 < realRadius heavy32 + realRadius light32"
    unfolding distReal32_hl by (simp add: heavy32_def light32_def float32_eval)
  have sq: "distanceReal config32 heavy32 light32 * distanceReal config32 heavy32 light32
              = Finite False 14551915 (- 24)"
    unfolding distReal32_hl by (simp add: float32_eval)
  have divs: "forceDivisors config32 heavy32 light32
       = [Finite False 9007199 (- 53), Finite False 8388608 (- 53), Finite False 8388608 (- 53),
          Finite False 14551915 (- 24)]"
    using far by (simp add: forceDivisors_def dist32_hl sq space_scale32)
  have nz: "list_all (\<lambda>d. \<not> is_zero d) (forceDivisors config32 heavy32 light32)"
    using T by blast
  have pos: "position heavy32 = [Finite False 0 (- 149), Finite False 0 (- 149)]"
    by (simp add: heavy32_def zero32)
  have "forceDivisors config32 (heavy32\<lparr>position := [Finite False 0 (- 149), Finite False 0 (- 149)]\<rparr>)
          (light32\<lparr>position := [Finite False 0 (- 149), Finite False 0 (- 149)]\<rparr>)
        = [SPACE_SCALE config32]"
    using T [of False 0 "- 149" False 0 "- 149"] by blast
  moreover have "heavy32\<lparr>position := [Finite False 0 (- 149), Finite False 0 (- 149)]\<rparr> = heavy32"
    by (simp add: heavy32_def zero32)
  ultimately have same: "forceDivisors config32 heavy32 (light32\<lparr>position := position heavy32\<rparr>)
       = [Finite False 9007199 (- 53)]"
    by (simp add: pos space_scale32)
  from h1 h2 h3 h4 divs nz same show ?thesis
    by blast
qed

text \<open>
  The same in the exact arithmetic of \<^typ>\<open>real\<close>, for every space scale other than
  zero. For two objects of strictly positive physical radii, none of the divisors of lines
  138-149 is zero; and if the two positions coincide, the distance and the real distance
  are zero, the test of line 141 holds, and the pass ends before the divisions by the
  distance and by the squared real distance.
\<close>

theorem force_divisors_nonzero_exact:
  fixes c :: "real config"
  assumes "sqrtf c = sqrt" and "SPACE_SCALE c \<noteq> 0"
    and "0 < realRadius obj" and "0 < realRadius obj2"
  shows "0 \<notin> set (forceDivisors c obj obj2)
         \<and> distanceSim c obj (obj2\<lparr>position := position obj\<rparr>) = 0
         \<and> distanceReal c obj (obj2\<lparr>position := position obj\<rparr>) = 0
         \<and> forceDivisors c obj (obj2\<lparr>position := position obj\<rparr>) = [SPACE_SCALE c]
         \<and> gravityStep c (obj2\<lparr>position := position obj\<rparr>) obj = obj"
proof -
  have far: "distanceSim c obj obj2 \<noteq> 0 \<and> distanceReal c obj obj2 * distanceReal c obj obj2 \<noteq> 0"
    if "\<not> distanceReal c obj obj2 < realRadius obj + realRadius obj2"
  proof -
    from that assms(3,4) have "0 < distanceReal c obj obj2" by linarith
    then show ?thesis by (auto simp add: distanceReal_def)
  qed
  have divs: "0 \<notin> set (forceDivisors c obj obj2)"
    using far assms(2) by (auto simp add: forceDivisors_def)
  have d0: "distanceSim c obj (obj2\<lparr>position := position obj\<rparr>) = 0"
    using assms(1) by (simp add: distanceSim_def)
  have r0: "distanceReal c obj (obj2\<lparr>position := position obj\<rparr>) = 0"
    using d0 by (simp add: distanceReal_def)
  have skip: "distanceReal c obj (obj2\<lparr>position := position obj\<rparr>)
                < realRadius obj + realRadius (obj2\<lparr>position := position obj\<rparr>)"
    using r0 assms(3,4) by simp
  have fd: "forceDivisors c obj (obj2\<lparr>position := position obj\<rparr>) = [SPACE_SCALE c]"
    using skip by (simp add: forceDivisors_def)
  have gs: "gravityStep c (obj2\<lparr>position := position obj\<rparr>) obj = obj"
    using skip by (simp add: gravityStep_def)
  from divs d0 r0 fd gs show ?thesis by blast
qed

text \<open>
  An instance: the Earth and the Moon. At their places of lines 86 and 94 the pass
  divides by \<open>1e-9\<close>, twice by \<open>0.384\<close> and by \<open>384000000 * 384000000\<close>; with the Moon at
  the Earth's place it divides by \<open>1e-9\<close> only.
\<close>

theorem force_divisors_nonzero_exact_witness:
  "sqrtf config_main = sqrt \<and> SPACE_SCALE config_main \<noteq> 0
   \<and> 0 < realRadius earth \<and> 0 < realRadius moon
   \<and> forceDivisors config_main earth moon
       = [1 / 10 ^ 9, 0.384, 0.384, 384000000 * 384000000]
   \<and> 0 \<notin> set (forceDivisors config_main earth moon)
   \<and> forceDivisors config_main earth (moon\<lparr>position := position earth\<rparr>) = [1 / 10 ^ 9]"
proof -
  have far: "sqrt (2304 / 15625) = 48 / 125"
    using real_sqrt_abs2 [of "48 / 125"] by simp
  have h1: "sqrtf config_main = sqrt" by (simp add: config_main_def)
  have h2: "SPACE_SCALE config_main \<noteq> 0" by (simp add: config_main_def)
  have h3: "0 < realRadius earth" by (simp add: earth_def)
  have h4: "0 < realRadius moon" by (simp add: moon_def)
  have v: "forceDivisors config_main earth moon
             = [1 / 10 ^ 9, 0.384, 0.384, 384000000 * 384000000]"
    by (simp add: forceDivisors_def distanceReal_def distanceSim_def config_main_def
        earth_def moon_def far)
  from force_divisors_nonzero_exact [OF h1 h2 h3 h4] h1 h2 h3 h4 v show ?thesis
    by (simp add: config_main_def)
qed

subsection \<open>The symmetry of the force\<close>

lemma force32_hl: "force config32 heavy32 light32 = Finite False 9475536 (- 44)"
  unfolding force_def distReal32_hl by (simp add: config32_def heavy32_def light32_def float32_eval)

lemma force32_lh: "force config32 light32 heavy32 = Finite False 9475537 (- 44)"
  unfolding force_def distReal32_lh by (simp add: config32_def heavy32_def light32_def float32_eval)

text \<open>
  Claim C7 as stated fails in the arithmetic of the program. For an object of mass 1000 and
  one of mass 7, far enough apart for the force to be computed and at the same real
  distance in both directions, the force on the first is \<open>9475536 * 2^-44\<close> and the force
  on the second is \<open>9475537 * 2^-44\<close>: the products \<open>(G * 1000) * 7\<close> and
  \<open>(G * 7) * 1000\<close> of line 149 round differently.
\<close>

theorem force_magnitude_counterexample:
  "\<not> distanceReal config32 heavy32 light32 < realRadius heavy32 + realRadius light32
   \<and> \<not> distanceReal config32 light32 heavy32 < realRadius light32 + realRadius heavy32
   \<and> distanceReal config32 heavy32 light32 = distanceReal config32 light32 heavy32
   \<and> force config32 heavy32 light32 = Finite False 9475536 (- 44)
   \<and> force config32 light32 heavy32 = Finite False 9475537 (- 44)
   \<and> force config32 heavy32 light32 \<noteq> force config32 light32 heavy32"
  unfolding force32_hl force32_lh distReal32_hl distReal32_lh
  by (simp add: heavy32_def light32_def float32_eval)

lemma distanceSim_sym:
  fixes c :: "real config"
  shows "distanceSim c a b = distanceSim c b a"
proof -
  have "(x - y) * (x - y) = (y - x) * (y - x)" for x y :: real
    by (simp add: algebra_simps)
  then show ?thesis
    by (simp add: distanceSim_def Let_def)
qed

text \<open>
  Claim C7, amended: in exact arithmetic. For two objects \<open>A\<close> and \<open>B\<close> whose real
  distance is at least the sum of their physical radii, the inner loop accelerates \<open>A\<close> by
  the force on it divided by its mass, along the direction to \<open>B\<close>; evaluated at the same
  two positions, the real distance is the same in both directions, the force on \<open>A\<close>
  equals the force on \<open>B\<close>, it is \<open>G * mass A * mass B\<close> times \<open>1 / distanceReal^2\<close>, and
  the direction from \<open>A\<close> to \<open>B\<close> is the negated direction from \<open>B\<close> to \<open>A\<close>.
\<close>

theorem force_symmetric_in_exact_arithmetic:
  fixes c :: "real config"
  assumes "\<not> distanceReal c a b < realRadius a + realRadius b"
  shows "gravityStep c b a
           = accelerate c (force c a b / mass a * direction c a b ! 0)
               (force c a b / mass a * direction c a b ! 1) a
         \<and> distanceReal c a b = distanceReal c b a
         \<and> force c a b = force c b a
         \<and> force c a b = G c * mass a * mass b * (1 / (distanceReal c a b)\<^sup>2)
         \<and> direction c a b = map uminus (direction c b a)"
proof -
  have step: "gravityStep c b a
           = accelerate c (force c a b / mass a * direction c a b ! 0)
               (force c a b / mass a * direction c a b ! 1) a"
    using assms by (simp add: gravityStep_def Let_def)
  have dist: "distanceReal c a b = distanceReal c b a"
    by (simp add: distanceReal_def distanceSim_sym [of c a b])
  have sym: "force c a b = force c b a"
    by (simp add: force_def dist mult.commute mult.left_commute)
  have scale: "force c a b = G c * mass a * mass b * (1 / (distanceReal c a b)\<^sup>2)"
    by (simp add: force_def power2_eq_square)
  have dir: "direction c a b = map uminus (direction c b a)"
    by (simp add: direction_def Let_def distanceSim_sym [of c a b] minus_divide_left)
  from step dist sym scale dir show ?thesis
    by blast
qed

text \<open>
  Witness for C7: the Earth and the Moon at their places of lines 86 and 94, at a real
  distance of \<open>384000000\<close>.
\<close>

theorem force_symmetric_in_exact_arithmetic_witness:
  "\<not> distanceReal config_main earth moon < realRadius earth + realRadius moon
   \<and> distanceReal config_main earth moon = 384000000
   \<and> force config_main earth moon = force config_main moon earth
   \<and> force config_main earth moon
       = 6.674 / 10 ^ 11 * (5.97 * 10 ^ 24) * (7.35 * 10 ^ 22) * (1 / 384000000\<^sup>2)
   \<and> direction config_main earth moon = [1, 0]
   \<and> direction config_main moon earth = [- 1, 0]"
proof -
  have far: "sqrt (2304 / 15625) = 48 / 125"
    using real_sqrt_abs2 [of "48 / 125"] by simp
  have d: "distanceReal config_main earth moon = 384000000"
    by (simp add: distanceReal_def distanceSim_def config_main_def earth_def moon_def far)
  have h: "\<not> distanceReal config_main earth moon < realRadius earth + realRadius moon"
    unfolding d by (simp add: earth_def moon_def)
  have dir: "direction config_main earth moon = [1, 0]"
    by (simp add: direction_def distanceSim_def config_main_def earth_def moon_def far)
  note T = force_symmetric_in_exact_arithmetic [OF h]
  have sym: "force config_main earth moon = force config_main moon earth"
    using T by blast
  have scale: "force config_main earth moon
       = 6.674 / 10 ^ 11 * (5.97 * 10 ^ 24) * (7.35 * 10 ^ 22) * (1 / 384000000\<^sup>2)"
    using T unfolding d by (simp add: config_main_def earth_def moon_def)
  have rev: "direction config_main moon earth = [- 1, 0]"
    using T dir by (simp add: config_main_def earth_def moon_def direction_def distanceSim_def far)
  from h d sym scale dir rev show ?thesis
    by blast
qed

text \<open>
  In binary32 the two directions still agree on the distance: the differences of lines 133
  and 134 only change sign when the objects are exchanged, and a square does not depend on
  the sign. The two forces of the counterexample therefore differ in the numerator of
  line 149 alone.
\<close>

lemma round32_flip:
  "(\<exists>m e. round32 s a = Finite s m e \<and> round32 (\<not> s) a = Finite (\<not> s) m e)
   \<or> (round32 s a = Infinity s \<and> round32 (\<not> s) a = Infinity (\<not> s))"
  by (simp add: round32_def pack_def Let_def)

lemma square_of_difference:
  fixes x y :: float32
  shows "(x - y) * (x - y) = (y - x) * (y - x)"
proof (cases x; cases y)
  fix s m e t n f
  assume x: "x = Finite s m e" and y: "y = Finite t n f"
  let ?v = "valof s m e + valof (\<not> t) n f"
  let ?w = "valof t n f + valof (\<not> s) m e"
  have neg: "?w = - ?v"
    by (simp add: valof_def)
  show ?thesis
  proof (cases "?v = 0")
    case True
    with neg have "?w = 0"
      by simp
    with True x y show ?thesis
      by (simp add: minus_float32_def times_float32_def Let_def valof_def)
  next
    case False
    with neg have w: "?w \<noteq> 0" "\<bar>?w\<bar> = \<bar>?v\<bar>" "(?w < 0) = (\<not> ?v < 0)"
      by auto
    from False x y have xy: "x - y = round32 (?v < 0) \<bar>?v\<bar>"
      by (simp add: minus_float32_def Let_def)
    from w x y have yx: "y - x = round32 (\<not> ?v < 0) \<bar>?v\<bar>"
      by (simp add: minus_float32_def Let_def)
    from round32_flip [of "?v < 0" "\<bar>?v\<bar>"] show ?thesis
    proof
      assume "\<exists>m' e'. round32 (?v < 0) \<bar>?v\<bar> = Finite (?v < 0) m' e'
                \<and> round32 (\<not> ?v < 0) \<bar>?v\<bar> = Finite (\<not> ?v < 0) m' e'"
      with xy yx show ?thesis
        by (auto simp add: times_float32_def valof_def)
    next
      assume "round32 (?v < 0) \<bar>?v\<bar> = Infinity (?v < 0)
                \<and> round32 (\<not> ?v < 0) \<bar>?v\<bar> = Infinity (\<not> ?v < 0)"
      with xy yx show ?thesis
        by (simp add: times_float32_def)
    qed
  qed
qed (auto simp add: minus_float32_def times_float32_def)

lemma distanceSim_symmetric_binary32: "distanceSim config32 a b = distanceSim config32 b a"
  by (simp add: distanceSim_def Let_def
      square_of_difference [of "position b ! 0" "position a ! 0"]
      square_of_difference [of "position b ! Suc 0" "position a ! Suc 0"])

lemma distanceReal_symmetric_binary32: "distanceReal config32 a b = distanceReal config32 b a"
  by (simp add: distanceReal_def distanceSim_symmetric_binary32 [of a b])

end
